theory Spec2Isabelle
  imports
    Complex_Main
    "HOL-Library.AList"
    "HOL-Library.Char_ord"
    "HOL-Library.List_Lexorder"
    "HOL-Library.Log_Nat"
    "HOL-Library.Multiset"
    "HOL-Library.Option_ord"
begin

section \<open>The document store of app\_firebase.py\<close>

text \<open>
  The backend keeps two Firestore collections, \<^verbatim>\<open>medicamentos\<close> and \<^verbatim>\<open>movimientos\<close>.
  A document, like the JSON body of a request, is a dictionary. A key of it is absent,
  or holds \<^verbatim>\<open>None\<close> (a JSON \<^verbatim>\<open>null\<close>), or holds a value of the type that the data model
  gives the field: a Python integer for quantities, minimum stocks and orders, a string
  for the other fields. Values of other JSON types are outside the model. A Python
  \<^verbatim>\<open>str\<close> is modelled by its UTF-8 encoding, a list of bytes.
\<close>

datatype 'a campo = Ausente | Nulo | Valor 'a

text \<open>
  \<^verbatim>\<open>d.get(key)\<close> and \<^verbatim>\<open>d.get(key, default)\<close>; the result \<open>None\<close> is Python's \<^verbatim>\<open>None\<close>. The
  default only replaces an absent key.
\<close>

definition dict_get :: "'a campo \<Rightarrow> 'a option" where
  "dict_get c = (case c of Ausente \<Rightarrow> None | Nulo \<Rightarrow> None | Valor v \<Rightarrow> Some v)"

definition dict_get_default :: "'a campo \<Rightarrow> 'a \<Rightarrow> 'a option" where
  "dict_get_default c d = (case c of Ausente \<Rightarrow> Some d | Nulo \<Rightarrow> None | Valor v \<Rightarrow> Some v)"

text \<open>Storing the result of \<^verbatim>\<open>d.get(key)\<close> under a key: the key is then present.\<close>

definition almacenar :: "'a option \<Rightarrow> 'a campo" where
  "almacenar v = (case v of None \<Rightarrow> Nulo | Some x \<Rightarrow> Valor x)"

type_synonym doc_id = string

record movimiento =
  tipo :: "string campo"
  fecha :: "string campo"
  medicamento_id :: "doc_id campo"
  cantidad :: "int campo"
  turno :: "string campo"
  fecha_vencimiento :: "string campo"
  observaciones :: "string campo"
  fecha_registro :: "int campo"

record medicamento =
  nombre :: "string campo"
  stock_minimo :: "int campo"
  orden :: "int campo"
  fecha_creacion :: "int campo"

text \<open>
  A collection is the list of its documents with their ids, in the order in which a
  query streams them. \<^verbatim>\<open>db\<close> is \<^verbatim>\<open>None\<close> when Firebase was not initialised; a client
  that exists either answers from the stored collections or raises on every call
  (the network or the service is down). \<^verbatim>\<open>print\<close> appends a line to the console.
\<close>

record firestore =
  medicamentos :: "(doc_id \<times> medicamento) list"
  movimientos :: "(doc_id \<times> movimiento) list"

datatype cliente = Inalcanzable | Alcanzable firestore

record mundo =
  db :: "cliente option"
  consola :: "string list"

text \<open>The world of a reachable store.\<close>

definition conectado :: "firestore \<Rightarrow> string list \<Rightarrow> mundo" where
  "conectado fs out = \<lparr>db = Some (Alcanzable fs), consola = out\<rparr>"

text \<open>
  The exceptions that the modelled code can raise. \<open>ErrorFirestore\<close> stands for any
  exception of the Firestore client or service.
\<close>

datatype excepcion =
    ErrorFirestore
  | TypeError
  | AttributeError
  | ZeroDivisionError
  | OverflowError
  | ValueError
  | IllegalCharacterError

section \<open>Dates\<close>

text \<open>
  A \<^verbatim>\<open>datetime.date\<close> is modelled by its proleptic Gregorian ordinal (\<^verbatim>\<open>date.toordinal()\<close>):
  day 1 is 0001-01-01 and day 3652059 is 9999-12-31. Adding a \<^verbatim>\<open>timedelta\<close> of whole days
  adds to the ordinal and raises \<^verbatim>\<open>OverflowError\<close> when the result leaves that range;
  the difference of two dates is the difference of the ordinals.
\<close>

definition date_add :: "int \<Rightarrow> int \<Rightarrow> excepcion + int" where
  "date_add d k = (if 1 \<le> d + k \<and> d + k \<le> 3652059 then Inr (d + k) else Inl OverflowError)"

text \<open>
  \<^verbatim>\<open>_ord2ymd\<close> of the standard library: the year, month and day of an ordinal, through
  the cycles of 400, 100, 4 and 1 years.
\<close>

definition days_before_month :: "int \<Rightarrow> int" where
  "days_before_month month =
     [0, 0, 31, 59, 90, 120, 151, 181, 212, 243, 273, 304, 334] ! nat month"

definition days_in_month :: "int \<Rightarrow> int" where
  "days_in_month month = [0, 31, 28, 31, 30, 31, 30, 31, 31, 30, 31, 30, 31] ! nat month"

definition ord2ymd :: "int \<Rightarrow> int \<times> int \<times> int" where
  "ord2ymd ordinal =
     (let n = ordinal - 1;
          n400 = n div 146097; n = n mod 146097;
          n100 = n div 36524; n = n mod 36524;
          n4 = n div 1461; n = n mod 1461;
          n1 = n div 365; n = n mod 365;
          year = n400 * 400 + 1 + n100 * 100 + n4 * 4 + n1
      in if n1 = 4 \<or> n100 = 4 then (year - 1, 12, 31)
         else
           (let leapyear = (n1 = 3 \<and> (n4 \<noteq> 24 \<or> n100 = 3));
                month = (n + 50) div 32;
                preceding = days_before_month month
                              + (if 2 < month \<and> leapyear then 1 else 0)
            in if n < preceding
                 then (year, month - 1,
                       n - (preceding - (days_in_month (month - 1)
                              + (if month - 1 = 2 \<and> leapyear then 1 else 0))) + 1)
               else (year, month, n - preceding + 1)))"

text \<open>Decimal digits, zero padded: \<^verbatim>\<open>%02d\<close> and \<^verbatim>\<open>%04d\<close> of a number in range.\<close>

definition digito :: "int \<Rightarrow> char" where
  "digito n = ''0123456789'' ! nat (n mod 10)"

definition dos_digitos :: "int \<Rightarrow> string" where
  "dos_digitos n = [digito (n div 10), digito n]"

definition cuatro_digitos :: "int \<Rightarrow> string" where
  "cuatro_digitos n = [digito (n div 1000), digito (n div 100), digito (n div 10), digito n]"

text \<open>\<^verbatim>\<open>date.isoformat()\<close>, which is also \<^verbatim>\<open>str(date)\<close>.\<close>

definition isoformat :: "int \<Rightarrow> string" where
  "isoformat d =
     (case ord2ymd d of
        (y, m, dd) \<Rightarrow> cuatro_digitos y @ ''-'' @ dos_digitos m @ ''-'' @ dos_digitos dd)"

text \<open>\<^verbatim>\<open>strftime("%d/%m")\<close>: day and month, two digits each.\<close>

definition strftime_dm :: "int \<Rightarrow> string" where
  "strftime_dm d = (case ord2ymd d of (y, m, dd) \<Rightarrow> dos_digitos dd @ ''/'' @ dos_digitos m)"

text \<open>\<^verbatim>\<open>date.weekday()\<close>: Monday is 0.\<close>

definition weekday :: "int \<Rightarrow> int" where
  "weekday d = (d + 6) mod 7"

section \<open>Doubles\<close>

text \<open>
  A Python \<^verbatim>\<open>float\<close> is modelled by the rational it denotes. \<open>a_double\<close> rounds a rational
  to the nearest double: 53 significant bits, ties to the even significand. The exponent
  range is not modelled (no overflow and no subnormal numbers), which is exact for
  magnitudes between \<open>2 powi - 1022\<close> and \<open>2 powi 1024\<close>.
\<close>

text \<open>Rounding to the nearest integer, ties to even.\<close>

definition round_half_even :: "rat \<Rightarrow> int" where
  "round_half_even x =
     (let n = \<lfloor>x\<rfloor>; r = x - of_int n
      in if r < 1 / 2 then n else if 1 / 2 < r then n + 1
         else if even n then n else n + 1)"

text \<open>\<open>exponente x\<close> is the integer \<open>e\<close> with \<open>2 powi e \<le> x < 2 powi (e + 1)\<close>, for positive \<open>x\<close>.\<close>

definition exponente :: "rat \<Rightarrow> int" where
  "exponente x =
     (case quotient_of x of
        (a, b) \<Rightarrow>
          (let e = int (floorlog 2 (nat a)) - int (floorlog 2 (nat b))
           in if 2 powi e \<le> x then e else e - 1))"

definition a_double :: "rat \<Rightarrow> rat" where
  "a_double x =
     (if x = 0 then 0
      else (let q = 2 powi (exponente \<bar>x\<bar> - 52)
            in of_int (round_half_even (x / q)) * q))"

text \<open>
  \<^verbatim>\<open>round(x, 2)\<close> on a double: the exact value is rounded to two decimals, ties to even, and
  the result is the double nearest to that decimal.
\<close>

definition py_round2 :: "rat \<Rightarrow> rat" where
  "py_round2 x = a_double (of_int (round_half_even (x * 100)) / 100)"

section \<open>Library behaviour taken as parameters\<close>

text \<open>
  Three behaviours of libraries outside the repository are parameters of the model:
  \<^verbatim>\<open>datetime.strptime(s, '%Y-%m-%d').date()\<close>, which returns a date or raises; the
  directive \<^verbatim>\<open>%Y\<close> of \<^verbatim>\<open>date.strftime\<close>, which pads the year with zeros to four digits on
  some platforms and not on others; and the check that the Firestore client and service
  make on the id given to \<^verbatim>\<open>collection.document(id)\<close>, which raises for an id they reject.
\<close>

datatype relleno = ConCeros | SinCeros

record bibliotecas =
  strptime :: "string \<Rightarrow> excepcion + int"
  relleno_anio :: relleno
  id_aceptado :: "doc_id \<Rightarrow> bool"

definition formato_anio :: "relleno \<Rightarrow> int \<Rightarrow> string" where
  "formato_anio r y =
     (case r of
        ConCeros \<Rightarrow> cuatro_digitos y
      | SinCeros \<Rightarrow> dropWhile (\<lambda>c. c = CHR ''0'') (cuatro_digitos y))"

text \<open>\<^verbatim>\<open>strftime("%d/%m/%Y")\<close> and \<^verbatim>\<open>strftime("%Y%m%d")\<close>\<close>

definition strftime_dmy :: "relleno \<Rightarrow> int \<Rightarrow> string" where
  "strftime_dmy r d =
     (case ord2ymd d of
        (y, m, dd) \<Rightarrow> dos_digitos dd @ ''/'' @ dos_digitos m @ ''/'' @ formato_anio r y)"

definition strftime_ymd :: "relleno \<Rightarrow> int \<Rightarrow> string" where
  "strftime_ymd r d =
     (case ord2ymd d of (y, m, dd) \<Rightarrow> formato_anio r y @ dos_digitos m @ dos_digitos dd)"

section \<open>Response bodies\<close>

text \<open>
  An entry of the demand analysis, with the keys of its JSON object; the name is
  \<open>None\<close> for a JSON \<^verbatim>\<open>null\<close>.
\<close>

record entrada =
  nombre_medicamento :: "string option"
  total_dispensado :: int
  frecuencia :: int
  promedio_diario :: rat

text \<open>
  A report worksheet, cell values only (fonts, borders, merged ranges, widths and the
  footer are left out). A data row has the four leading columns A to D, then one cell per
  day and shift from column 5 on, then the column of the total demand and the column of
  the current stock. A cell that is never written, or is written \<^verbatim>\<open>None\<close>, is empty.
\<close>

datatype celda = Vacia | Texto string | Numero int

record fila =
  col_medicamento :: celda
  col_f_ingreso :: celda
  col_f_venc :: celda
  col_stock_inicial :: celda
  celdas_turno :: "celda list"
  celda_demanda :: celda
  celda_stock :: celda

record hoja =
  titulo_hoja :: celda
  encabezado_dias :: "(string \<times> string list) list"
  col_demanda :: nat
  col_stock :: nat
  filas :: "fila list"

text \<open>
  A handler returns the HTTP status with the JSON body, and the world it leaves behind.
  An exception caught by the handler's \<^verbatim>\<open>except Exception\<close> clause becomes status 500 with
  the exception in the body.
\<close>

datatype cuerpo =
    Error string
  | ErrorExcepcion excepcion
  | ErrorStock int int
  | ErrorAsociados nat
  | Mensaje string
  | Creado doc_id string
  | MedicamentoCreado doc_id string int string
  | Demanda "entrada list"
  | Archivo string hoja

type_synonym respuesta = "nat \<times> cuerpo"

text \<open>Python's truth value of a string that may be \<^verbatim>\<open>None\<close>.\<close>

definition verdadero_str :: "string option \<Rightarrow> bool" where
  "verdadero_str v = (case v of None \<Rightarrow> False | Some s \<Rightarrow> s \<noteq> [])"

section \<open>Derived stock (calcular\_stock\_medicamento, lines 393--417)\<close>

text \<open>\<^verbatim>\<open>db.collection('movimientos').where('medicamento_id', '==', id).stream()\<close>\<close>

definition movimientos_de :: "firestore \<Rightarrow> doc_id \<Rightarrow> movimiento list" where
  "movimientos_de fs med_id =
     map snd (filter (\<lambda>d. medicamento_id (snd d) = Valor med_id) (movimientos fs))"

text \<open>
  The \<^verbatim>\<open>for\<close> loop with its two accumulators, the pair \<open>(ingresos, salidas)\<close>:
  \<^verbatim>\<open>tipo = mov.get('tipo', '')\<close>, \<^verbatim>\<open>cantidad = mov.get('cantidad', 0)\<close>, then the
  \<^verbatim>\<open>if\<close>/\<^verbatim>\<open>elif\<close> on the kind. Adding \<^verbatim>\<open>None\<close> to an integer raises \<^verbatim>\<open>TypeError\<close>.
\<close>

fun sumar_stock :: "int \<times> int \<Rightarrow> movimiento list \<Rightarrow> excepcion + int \<times> int" where
  "sumar_stock (ingresos, salidas) [] = Inr (ingresos, salidas)"
| "sumar_stock (ingresos, salidas) (mov # movs) =
     (if dict_get_default (tipo mov) [] = Some ''INGRESO''
        then (case dict_get_default (cantidad mov) 0 of
                None \<Rightarrow> Inl TypeError
              | Some q \<Rightarrow> sumar_stock (ingresos + q, salidas) movs)
      else if dict_get_default (tipo mov) [] = Some ''SALIDA''
        then (case dict_get_default (cantidad mov) 0 of
                None \<Rightarrow> Inl TypeError
              | Some q \<Rightarrow> sumar_stock (ingresos, salidas + q) movs)
      else sumar_stock (ingresos, salidas) movs)"

text \<open>
  The \<^verbatim>\<open>try\<close> block: it raises when the query or the loop does, and otherwise returns
  \<^verbatim>\<open>ingresos - salidas\<close>.
\<close>

definition stock_try :: "cliente \<Rightarrow> doc_id \<Rightarrow> excepcion + int" where
  "stock_try c med_id =
     (case c of
        Inalcanzable \<Rightarrow> Inl ErrorFirestore
      | Alcanzable fs \<Rightarrow>
          (case sumar_stock (0, 0) (movimientos_de fs med_id) of
             Inl e \<Rightarrow> Inl e
           | Inr (ingresos, salidas) \<Rightarrow> Inr (ingresos - salidas)))"

text \<open>
  The whole function: \<^verbatim>\<open>if not db: return 0\<close>, and the \<^verbatim>\<open>except\<close> clause that prints
  and returns 0. It returns the stock and the world it leaves behind.
\<close>

definition calcular_stock_medicamento :: "mundo \<Rightarrow> doc_id \<Rightarrow> int \<times> mundo" where
  "calcular_stock_medicamento w med_id =
     (case db w of
        None \<Rightarrow> (0, w)
      | Some c \<Rightarrow>
          (case stock_try c med_id of
             Inl e \<Rightarrow> (0, w\<lparr>consola := consola w @ [''Error calculando stock'']\<rparr>)
           | Inr s \<Rightarrow> (s, w)))"

text \<open>
  The derived stock in the words of the specification: the sum of the quantities of the
  \<^verbatim>\<open>INGRESO\<close> movements of the medication minus the sum of the quantities of its
  \<^verbatim>\<open>SALIDA\<close> movements, over the whole movement log. A movement without a quantity counts
  0. \<open>cantidades_validas\<close> says that none of these movements holds \<^verbatim>\<open>None\<close> as quantity.
\<close>

definition cantidad_entera :: "movimiento \<Rightarrow> int" where
  "cantidad_entera mov = (case cantidad mov of Valor q \<Rightarrow> q | _ \<Rightarrow> 0)"

definition stock_derivado :: "firestore \<Rightarrow> doc_id \<Rightarrow> int" where
  "stock_derivado fs med_id =
     sum_list (map cantidad_entera
       (filter (\<lambda>mov. medicamento_id mov = Valor med_id \<and> tipo mov = Valor ''INGRESO'')
          (map snd (movimientos fs))))
   - sum_list (map cantidad_entera
       (filter (\<lambda>mov. medicamento_id mov = Valor med_id \<and> tipo mov = Valor ''SALIDA'')
          (map snd (movimientos fs))))"

definition cantidades_validas :: "firestore \<Rightarrow> doc_id \<Rightarrow> bool" where
  "cantidades_validas fs med_id =
     list_all (\<lambda>mov. medicamento_id mov = Valor med_id
                   \<and> (tipo mov = Valor ''INGRESO'' \<or> tipo mov = Valor ''SALIDA'')
                 \<longrightarrow> cantidad mov \<noteq> Nulo)
       (map snd (movimientos fs))"

section \<open>HTTP handlers for movements\<close>

subsection \<open>crear\_movimiento (lines 285--333)\<close>

text \<open>
  \<^verbatim>\<open>db.collection('movimientos').add({...})\<close>: Firestore chooses the id of the new
  document and \<^verbatim>\<open>datetime.now()\<close> the time of registration; both are arguments. The new
  document is streamed after the existing ones. The four validated fields are stored
  as they are; the three optional ones are stored as \<^verbatim>\<open>data.get(...)\<close> returns them.
\<close>

definition agregar_movimiento ::
  "mundo \<Rightarrow> cliente \<Rightarrow> string \<Rightarrow> string \<Rightarrow> doc_id \<Rightarrow> int \<Rightarrow> movimiento \<Rightarrow> doc_id \<Rightarrow> int
     \<Rightarrow> respuesta \<times> mundo" where
  "agregar_movimiento w c t f m q data nuevo_id ahora =
     (case c of
        Inalcanzable \<Rightarrow> ((500, ErrorExcepcion ErrorFirestore), w)
      | Alcanzable fs \<Rightarrow>
          ((201, Creado nuevo_id ''Movimiento registrado''),
           w\<lparr>db := Some (Alcanzable (fs\<lparr>movimientos := movimientos fs @
             [(nuevo_id,
               \<lparr>tipo = Valor t, fecha = Valor f, medicamento_id = Valor m,
                cantidad = Valor q,
                turno = almacenar (dict_get (turno data)),
                fecha_vencimiento = almacenar (dict_get (fecha_vencimiento data)),
                observaciones = almacenar (dict_get (observaciones data)),
                fecha_registro = Valor ahora\<rparr>)]\<rparr>))\<rparr>))"

definition crear_movimiento ::
  "mundo \<Rightarrow> movimiento \<Rightarrow> doc_id \<Rightarrow> int \<Rightarrow> respuesta \<times> mundo" where
  "crear_movimiento w data nuevo_id ahora =
     (case db w of
        None \<Rightarrow> ((500, Error ''Base de datos no disponible''), w)
      | Some c \<Rightarrow>
          (case (dict_get (tipo data), dict_get (fecha data),
                 dict_get (medicamento_id data), dict_get (cantidad data)) of
             (Some t, Some f, Some m, Some q) \<Rightarrow>
               if t = [] \<or> f = [] \<or> m = [] \<or> q = 0
                 then ((400, Error ''Datos incompletos''), w)
               else if t \<noteq> ''INGRESO'' \<and> t \<noteq> ''SALIDA''
                 then ((400, Error (''Tipo inv'' @ [CHR 0xC3, CHR 0xA1] @ ''lido'')), w)
               else if q \<le> 0
                 then ((400, Error ''Cantidad debe ser mayor a 0''), w)
               else if t = ''SALIDA''
                 then (case calcular_stock_medicamento w m of
                         (stock_actual, w1) \<Rightarrow>
                           if stock_actual < q
                             then ((400, ErrorStock stock_actual q), w1)
                           else agregar_movimiento w1 c t f m q data nuevo_id ahora)
               else agregar_movimiento w c t f m q data nuevo_id ahora
           | _ \<Rightarrow> ((400, Error ''Datos incompletos''), w)))"

subsection \<open>eliminar\_movimiento (lines 335--346)\<close>

text \<open>
  The id of a route \<^verbatim>\<open>/api/.../<id>\<close> is not empty and has no slash; Firestore accepts
  it, and deleting a document that does not exist is no error.
\<close>

definition eliminar_movimiento :: "mundo \<Rightarrow> doc_id \<Rightarrow> respuesta \<times> mundo" where
  "eliminar_movimiento w ident =
     (case db w of
        None \<Rightarrow> ((500, Error ''Base de datos no disponible''), w)
      | Some Inalcanzable \<Rightarrow> ((500, ErrorExcepcion ErrorFirestore), w)
      | Some (Alcanzable fs) \<Rightarrow>
          ((200, Mensaje ''Movimiento eliminado''),
           w\<lparr>db := Some (Alcanzable
             (fs\<lparr>movimientos := filter (\<lambda>d. fst d \<noteq> ident) (movimientos fs)\<rparr>))\<rparr>))"

subsection \<open>actualizar\_movimiento (lines 348--387)\<close>

text \<open>
  \<^verbatim>\<open>update_data\<close> always carries \<^verbatim>\<open>cantidad\<close> and \<^verbatim>\<open>fecha\<close>, and \<^verbatim>\<open>turno\<close> only when the
  request gives a non-empty one.
\<close>

definition aplicar_update :: "int \<Rightarrow> string \<Rightarrow> string option \<Rightarrow> movimiento \<Rightarrow> movimiento" where
  "aplicar_update nueva_cantidad nueva_fecha nuevo_turno mov =
     (case nuevo_turno of
        None \<Rightarrow> mov\<lparr>cantidad := Valor nueva_cantidad, fecha := Valor nueva_fecha\<rparr>
      | Some t \<Rightarrow>
          if t = [] then mov\<lparr>cantidad := Valor nueva_cantidad, fecha := Valor nueva_fecha\<rparr>
          else mov\<lparr>cantidad := Valor nueva_cantidad, fecha := Valor nueva_fecha,
                   turno := Valor t\<rparr>)"

definition actualizar_movimiento :: "mundo \<Rightarrow> doc_id \<Rightarrow> movimiento \<Rightarrow> respuesta \<times> mundo" where
  "actualizar_movimiento w ident data =
     (case db w of
        None \<Rightarrow> ((500, Error ''Base de datos no disponible''), w)
      | Some c \<Rightarrow>
          (case dict_get (cantidad data) of
             None \<Rightarrow> ((400, Error (''Cantidad inv'' @ [CHR 0xC3, CHR 0xA1] @ ''lida'')), w)
           | Some nueva_cantidad \<Rightarrow>
               if nueva_cantidad = 0 \<or> nueva_cantidad < 1
                 then ((400, Error (''Cantidad inv'' @ [CHR 0xC3, CHR 0xA1] @ ''lida'')), w)
               else
                 (case dict_get (fecha data) of
                    None \<Rightarrow> ((400, Error ''Fecha requerida''), w)
                  | Some nueva_fecha \<Rightarrow>
                      if nueva_fecha = [] then ((400, Error ''Fecha requerida''), w)
                      else
                        (case c of
                           Inalcanzable \<Rightarrow> ((500, ErrorExcepcion ErrorFirestore), w)
                         | Alcanzable fs \<Rightarrow>
                             if ident \<notin> fst ` set (movimientos fs)
                               then ((404, Error ''Movimiento no encontrado''), w)
                             else
                               ((200, Mensaje ''Movimiento actualizado''),
                                w\<lparr>db := Some (Alcanzable (fs\<lparr>movimientos :=
                                  map (\<lambda>d. if fst d = ident
                                             then (fst d, aplicar_update nueva_cantidad
                                                            nueva_fecha
                                                            (dict_get (turno data)) (snd d))
                                             else d)
                                      (movimientos fs)\<rparr>))\<rparr>)))))"

section \<open>HTTP handlers for medications\<close>

text \<open>
  \<^verbatim>\<open>str.strip()\<close> removes the leading and the trailing whitespace characters. On the
  UTF-8 encoding these are the bytes 9 to 13 and 28 to 32, the two-byte sequences of
  U+0085 and U+00A0, and the three-byte sequences of U+1680, U+2000 to U+200A, U+2028,
  U+2029, U+202F, U+205F and U+3000.
\<close>

definition espacio1 :: "char \<Rightarrow> bool" where
  "espacio1 a = (let n = (of_char a :: nat) in (9 \<le> n \<and> n \<le> 13) \<or> (28 \<le> n \<and> n \<le> 32))"

definition espacio2 :: "char \<Rightarrow> char \<Rightarrow> bool" where
  "espacio2 a b = (a = CHR 0xC2 \<and> (b = CHR 0x85 \<or> b = CHR 0xA0))"

definition espacio3 :: "char \<Rightarrow> char \<Rightarrow> char \<Rightarrow> bool" where
  "espacio3 a b c =
     ((a = CHR 0xE1 \<and> b = CHR 0x9A \<and> c = CHR 0x80)
      \<or> (a = CHR 0xE2 \<and> b = CHR 0x80
          \<and> ((128 \<le> (of_char c :: nat) \<and> (of_char c :: nat) \<le> 138)
              \<or> c = CHR 0xA8 \<or> c = CHR 0xA9 \<or> c = CHR 0xAF))
      \<or> (a = CHR 0xE2 \<and> b = CHR 0x81 \<and> c = CHR 0x9F)
      \<or> (a = CHR 0xE3 \<and> b = CHR 0x80 \<and> c = CHR 0x80))"

text \<open>
  \<open>podar\<close> removes whitespace from the front of a list of bytes; the two tests say how
  the bytes of a sequence are laid out, so that the same function serves the reversed
  string.
\<close>

fun podar ::
  "(char \<Rightarrow> char \<Rightarrow> bool) \<Rightarrow> (char \<Rightarrow> char \<Rightarrow> char \<Rightarrow> bool) \<Rightarrow> string \<Rightarrow> string" where
  "podar e2 e3 (a # b # c # r) =
     (if espacio1 a then podar e2 e3 (b # c # r)
      else if e2 a b then podar e2 e3 (c # r)
      else if e3 a b c then podar e2 e3 r
      else a # b # c # r)"
| "podar e2 e3 [a, b] =
     (if espacio1 a then podar e2 e3 [b] else if e2 a b then [] else [a, b])"
| "podar e2 e3 [a] = (if espacio1 a then [] else [a])"
| "podar e2 e3 [] = []"

definition strip :: "string \<Rightarrow> string" where
  "strip s =
     rev (podar (\<lambda>a b. espacio2 b a) (\<lambda>a b c. espacio3 c b a)
        (rev (podar espacio2 espacio3 s)))"

subsection \<open>crear\_medicamento (lines 149--193)\<close>

text \<open>
  \<^verbatim>\<open>order_by('orden', direction=DESCENDING).limit(1)\<close> yields, among the documents that
  have the field, the one with the largest \<^verbatim>\<open>orden\<close>; \<^verbatim>\<open>None\<close> orders below every integer.
  \<open>max_orden\<close> is the value of \<^verbatim>\<open>max_orden\<close> after the loop: 0 without such a document, and
  \<^verbatim>\<open>None\<close> when every document that has the field holds \<^verbatim>\<open>None\<close>.
\<close>

definition max_orden :: "firestore \<Rightarrow> int option" where
  "max_orden fs =
     (if list_all (\<lambda>d. orden (snd d) = Ausente) (medicamentos fs) then Some 0
      else (case List.map_filter (\<lambda>d. dict_get (orden (snd d))) (medicamentos fs) of
              [] \<Rightarrow> None
            | u # us \<Rightarrow> Some (fold max us u)))"

text \<open>
  The handler. \<^verbatim>\<open>data.get('nombre', '').strip()\<close> raises \<^verbatim>\<open>AttributeError\<close> on
  \<^verbatim>\<open>None\<close>; \<^verbatim>\<open>stock_minimo < 1\<close> and \<^verbatim>\<open>max_orden + 1\<close> raise \<^verbatim>\<open>TypeError\<close> on \<^verbatim>\<open>None\<close>.
\<close>

definition crear_medicamento ::
  "mundo \<Rightarrow> medicamento \<Rightarrow> doc_id \<Rightarrow> int \<Rightarrow> respuesta \<times> mundo" where
  "crear_medicamento w data nuevo_id ahora =
     (case db w of
        None \<Rightarrow> ((500, Error ''Base de datos no disponible''), w)
      | Some c \<Rightarrow>
          (case dict_get_default (nombre data) [] of
             None \<Rightarrow> ((500, ErrorExcepcion AttributeError), w)
           | Some n \<Rightarrow>
               (let nombre' = strip n
                in if nombre' = []
                     then ((400, Error ''El nombre del medicamento es obligatorio''), w)
                   else
                     (case dict_get_default (stock_minimo data) 10 of
                        None \<Rightarrow> ((500, ErrorExcepcion TypeError), w)
                      | Some stock_minimo' \<Rightarrow>
                          if stock_minimo' < 1
                            then ((400, Error (''El stock m'' @ [CHR 0xC3, CHR 0xAD]
                                                 @ ''nimo debe ser mayor a 0'')), w)
                          else
                            (case c of
                               Inalcanzable \<Rightarrow> ((500, ErrorExcepcion ErrorFirestore), w)
                             | Alcanzable fs \<Rightarrow>
                                 if 0 < length (filter (\<lambda>d. nombre (snd d) = Valor nombre')
                                                  (medicamentos fs))
                                   then ((409, Error ''El medicamento ya existe''), w)
                                 else
                                   (case max_orden fs of
                                      None \<Rightarrow> ((500, ErrorExcepcion TypeError), w)
                                    | Some k \<Rightarrow>
                                        ((201, MedicamentoCreado nuevo_id nombre'
                                                 stock_minimo'
                                                 ''Medicamento agregado exitosamente''),
                                         w\<lparr>db := Some (Alcanzable (fs\<lparr>medicamentos :=
                                           medicamentos fs @
                                           [(nuevo_id,
                                             \<lparr>nombre = Valor nombre',
                                              stock_minimo = Valor stock_minimo',
                                              orden = Valor (k + 1),
                                              fecha_creacion = Valor ahora\<rparr>)]\<rparr>))\<rparr>)))))))"

subsection \<open>eliminar\_medicamento\_ruta (lines 195--215)\<close>

definition eliminar_medicamento_ruta :: "mundo \<Rightarrow> doc_id \<Rightarrow> respuesta \<times> mundo" where
  "eliminar_medicamento_ruta w ident =
     (case db w of
        None \<Rightarrow> ((500, Error ''Base de datos no disponible''), w)
      | Some Inalcanzable \<Rightarrow> ((500, ErrorExcepcion ErrorFirestore), w)
      | Some (Alcanzable fs) \<Rightarrow>
          (let count = length (movimientos_de fs ident)
           in if 0 < count then ((400, ErrorAsociados count), w)
              else
                ((200, Mensaje ''Medicamento eliminado exitosamente''),
                 w\<lparr>db := Some (Alcanzable
                   (fs\<lparr>medicamentos :=
                      filter (\<lambda>d. fst d \<noteq> ident) (medicamentos fs)\<rparr>))\<rparr>)))"

section \<open>Inventory status (get\_inventario, lines 432--442)\<close>

text \<open>
  The third comparison of the status chain is \<^verbatim>\<open>stock <= stock_minimo * 1.5\<close>: Python
  converts the integer to a double, multiplies by the double 1.5, and compares the integer
  stock with the resulting double exactly. \<open>clasificar_estado\<close> is the \<^verbatim>\<open>if\<close>/\<^verbatim>\<open>elif\<close>
  chain that sets \<^verbatim>\<open>estado\<close> from the stock and the minimum stock of a medication.
\<close>

datatype estado = AGOTADO | CRITICO | BAJO | OK

definition clasificar_estado :: "int \<Rightarrow> int \<Rightarrow> estado" where
  "clasificar_estado stock stock_min =
     (if stock \<le> 0 then AGOTADO
      else if stock \<le> stock_min then CRITICO
      else if of_int stock \<le> a_double (a_double (of_int stock_min) * (3 / 2)) then BAJO
      else OK)"

section \<open>Demand analysis (analisis\_demanda, lines 792--839)\<close>

text \<open>
  The dictionary \<^verbatim>\<open>demanda\<close> keeps its keys in the order of their first insertion, so it
  is an association list; the value of a key is the pair of \<^verbatim>\<open>cantidad\<close> and
  \<^verbatim>\<open>frecuencia\<close> (the entry \<^verbatim>\<open>nombre\<close> is never read). The key is
  \<^verbatim>\<open>mov.get('medicamento_id')\<close>, which may be \<^verbatim>\<open>None\<close>. \<open>registrar_demanda\<close> is the body of
  the \<^verbatim>\<open>if\<close> inside the first loop; adding \<^verbatim>\<open>None\<close> to the integer raises \<^verbatim>\<open>TypeError\<close>.
\<close>

type_synonym demanda = "(doc_id option \<times> int \<times> int) list"

definition registrar_demanda :: "movimiento \<Rightarrow> demanda \<Rightarrow> excepcion + demanda" where
  "registrar_demanda mov demanda =
     (let med_id = dict_get (medicamento_id mov);
          demanda' = (if med_id \<notin> fst ` set demanda
                        then demanda @ [(med_id, (0, 0))] else demanda)
      in case map_of demanda' med_id of
           None \<Rightarrow> Inr demanda'
         | Some (c, f) \<Rightarrow>
             (case dict_get_default (cantidad mov) 0 of
                None \<Rightarrow> Inl TypeError
              | Some q \<Rightarrow> Inr (AList.update med_id (c + q, f + 1) demanda')))"

text \<open>
  The first loop, over the stream of the query \<^verbatim>\<open>where('tipo', '==', 'SALIDA')\<close>. The test
  \<^verbatim>\<open>mov.get('fecha', '') >= fecha_desde\<close> compares strings and raises \<^verbatim>\<open>TypeError\<close> when the
  date is \<^verbatim>\<open>None\<close>.
\<close>

fun agrupar_demanda :: "string \<Rightarrow> demanda \<Rightarrow> movimiento list \<Rightarrow> excepcion + demanda" where
  "agrupar_demanda fecha_desde demanda [] = Inr demanda"
| "agrupar_demanda fecha_desde demanda (mov # movs) =
     (case dict_get_default (fecha mov) [] of
        None \<Rightarrow> Inl TypeError
      | Some f \<Rightarrow>
          if fecha_desde \<le> f
            then (case registrar_demanda mov demanda of
                    Inl e \<Rightarrow> Inl e
                  | Inr demanda' \<Rightarrow> agrupar_demanda fecha_desde demanda' movs)
          else agrupar_demanda fecha_desde demanda movs)"

text \<open>
  \<^verbatim>\<open>db.collection('medicamentos').document(med_id).get()\<close>: the document with that id, if
  it exists. For the key \<^verbatim>\<open>None\<close> the client makes up a fresh id, which no document has;
  for an id that the client or the service rejects the call raises.
\<close>

definition buscar_medicamento ::
  "bibliotecas \<Rightarrow> firestore \<Rightarrow> doc_id option \<Rightarrow> excepcion + medicamento option" where
  "buscar_medicamento lib fs med_id =
     (case med_id of
        None \<Rightarrow> Inr None
      | Some i \<Rightarrow>
          if id_aceptado lib i then Inr (map_of (medicamentos fs) i) else Inl ErrorFirestore)"

text \<open>
  \<^verbatim>\<open>data['cantidad'] / dias\<close> is the true division of two integers: it raises
  \<^verbatim>\<open>ZeroDivisionError\<close> for the divisor 0 and \<^verbatim>\<open>OverflowError\<close> when the quotient is too
  large for a double, and gives the nearest double otherwise. (The divisor of the handler
  is a number of days within the calendar, so a quotient other than 0 is far above the
  subnormal range.)
\<close>

definition division_verdadera :: "int \<Rightarrow> int \<Rightarrow> excepcion + rat" where
  "division_verdadera a b =
     (if b = 0 then Inl ZeroDivisionError
      else (let y = a_double (of_int a / of_int b)
            in if y \<noteq> 0 \<and> 1024 \<le> exponente \<bar>y\<bar> then Inl OverflowError else Inr y))"

text \<open>
  The entry of a group whose medication exists; \<^verbatim>\<open>.get('nombre', 'Desconocido')\<close> is
  \<^verbatim>\<open>None\<close> when the name is stored as \<^verbatim>\<open>None\<close>.
\<close>

definition entrada_de :: "medicamento \<Rightarrow> int \<Rightarrow> int \<Rightarrow> int \<Rightarrow> excepcion + entrada" where
  "entrada_de med c f dias =
     (case division_verdadera c dias of
        Inl e \<Rightarrow> Inl e
      | Inr y \<Rightarrow>
          Inr \<lparr>nombre_medicamento = dict_get_default (nombre med) ''Desconocido'',
               total_dispensado = c,
               frecuencia = f,
               promedio_diario = py_round2 y\<rparr>)"

text \<open>The second loop, over \<^verbatim>\<open>demanda.items()\<close>.\<close>

fun construir_resultado ::
  "bibliotecas \<Rightarrow> firestore \<Rightarrow> int \<Rightarrow> demanda \<Rightarrow> excepcion + entrada list" where
  "construir_resultado lib fs dias [] = Inr []"
| "construir_resultado lib fs dias ((med_id, (c, f)) # resto) =
     (case buscar_medicamento lib fs med_id of
        Inl e \<Rightarrow> Inl e
      | Inr None \<Rightarrow> construir_resultado lib fs dias resto
      | Inr (Some med) \<Rightarrow>
          (case entrada_de med c f dias of
             Inl e \<Rightarrow> Inl e
           | Inr x \<Rightarrow>
               (case construir_resultado lib fs dias resto of
                  Inl e \<Rightarrow> Inl e
                | Inr es \<Rightarrow> Inr (x # es))))"

text \<open>
  The handler. \<open>hoy\<close> is the date of \<^verbatim>\<open>datetime.now()\<close> and \<open>dias\<close> the parsed query
  parameter. \<^verbatim>\<open>sort(key=..., reverse=True)\<close> is a stable sort in descending order of the
  key, and \<^verbatim>\<open>resultado[:10]\<close> keeps the first ten entries.
\<close>

definition analisis_demanda ::
  "bibliotecas \<Rightarrow> mundo \<Rightarrow> int \<Rightarrow> int \<Rightarrow> respuesta \<times> mundo" where
  "analisis_demanda lib w hoy dias =
     (case db w of
        None \<Rightarrow> ((500, Error ''Base de datos no disponible''), w)
      | Some c \<Rightarrow>
          (case date_add hoy (- dias) of
             Inl e \<Rightarrow> ((500, ErrorExcepcion e), w)
           | Inr desde \<Rightarrow>
               (case c of
                  Inalcanzable \<Rightarrow> ((500, ErrorExcepcion ErrorFirestore), w)
                | Alcanzable fs \<Rightarrow>
                    (case agrupar_demanda (isoformat desde) []
                            (filter (\<lambda>m. tipo m = Valor ''SALIDA'')
                               (map snd (movimientos fs))) of
                       Inl e \<Rightarrow> ((500, ErrorExcepcion e), w)
                     | Inr demanda \<Rightarrow>
                         (case construir_resultado lib fs dias demanda of
                            Inl e \<Rightarrow> ((500, ErrorExcepcion e), w)
                          | Inr resultado \<Rightarrow>
                              ((200, Demanda (take 10
                                  (sort_key (\<lambda>x. - total_dispensado x) resultado))),
                               w))))))"

text \<open>
  The demand analysis in the words of the specification, with the window the code uses:
  the \<^verbatim>\<open>SALIDA\<close> movements whose date string is not below the ISO date of the day
  \<open>dias\<close> days before today, grouped by medication id in the order of first appearance;
  a group is reported when its medication exists, with the sum of its quantities, the
  number of its movements and the rounded daily average; the entries are sorted by
  descending total and at most 10 are kept. \<open>promedios\<close> computes the averages of the
  reported groups one after the other, and fails when a division does.
\<close>

definition en_ventana :: "string \<Rightarrow> movimiento \<Rightarrow> bool" where
  "en_ventana fecha_desde m =
     (tipo m = Valor ''SALIDA''
      \<and> (case fecha m of Valor f \<Rightarrow> fecha_desde \<le> f | _ \<Rightarrow> False))"

definition salidas_desde :: "firestore \<Rightarrow> string \<Rightarrow> movimiento list" where
  "salidas_desde fs fecha_desde = filter (en_ventana fecha_desde) (map snd (movimientos fs))"

definition clave :: "movimiento \<Rightarrow> doc_id option" where
  "clave m = (case medicamento_id m of Valor i \<Rightarrow> Some i | _ \<Rightarrow> None)"

definition primeras :: "'a list \<Rightarrow> 'a list" where
  "primeras xs = rev (remdups (rev xs))"

definition total_de :: "doc_id option \<Rightarrow> movimiento list \<Rightarrow> int" where
  "total_de k movs = sum_list (map cantidad_entera (filter (\<lambda>m. clave m = k) movs))"

definition cuenta_de :: "doc_id option \<Rightarrow> movimiento list \<Rightarrow> int" where
  "cuenta_de k movs = int (length (filter (\<lambda>m. clave m = k) movs))"

definition grupos_reportados :: "firestore \<Rightarrow> movimiento list \<Rightarrow> (medicamento \<times> int \<times> int) list" where
  "grupos_reportados fs sel =
     List.map_filter
       (\<lambda>k. case k of
              None \<Rightarrow> None
            | Some i \<Rightarrow>
                (case map_of (medicamentos fs) i of
                   None \<Rightarrow> None
                 | Some med \<Rightarrow> Some (med, total_de k sel, cuenta_de k sel)))
       (primeras (map clave sel))"

fun promedios :: "int \<Rightarrow> (medicamento \<times> int \<times> int) list \<Rightarrow> excepcion + entrada list" where
  "promedios dias [] = Inr []"
| "promedios dias ((med, c, f) # resto) =
     (case entrada_de med c f dias of
        Inl e \<Rightarrow> Inl e
      | Inr x \<Rightarrow>
          (case promedios dias resto of
             Inl e \<Rightarrow> Inl e
           | Inr es \<Rightarrow> Inr (x # es)))"

definition demanda_por_ventana :: "firestore \<Rightarrow> string \<Rightarrow> int \<Rightarrow> excepcion + entrada list" where
  "demanda_por_ventana fs fecha_desde dias =
     (case promedios dias (grupos_reportados fs (salidas_desde fs fecha_desde)) of
        Inl e \<Rightarrow> Inl e
      | Inr es \<Rightarrow> Inr (take 10 (sort_key (\<lambda>x. - total_dispensado x) es)))"

text \<open>
  The \<^verbatim>\<open>SALIDA\<close> movements of the data model, for the demand analysis: none holds
  \<^verbatim>\<open>None\<close> as date or as quantity, and the medication id of each, when it has one, is an id
  that Firestore accepts.
\<close>

definition salidas_bien_formadas :: "bibliotecas \<Rightarrow> firestore \<Rightarrow> bool" where
  "salidas_bien_formadas lib fs =
     list_all (\<lambda>m. tipo m = Valor ''SALIDA'' \<longrightarrow>
                 fecha m \<noteq> Nulo \<and> cantidad m \<noteq> Nulo
                 \<and> (case medicamento_id m of Valor i \<Rightarrow> id_aceptado lib i | _ \<Rightarrow> True))
       (map snd (movimientos fs))"

text \<open>The groups of a list of movements: key, total and count, in the order of first appearance.\<close>

definition grupos :: "movimiento list \<Rightarrow> demanda" where
  "grupos movs =
     map (\<lambda>k. (k, total_de k movs, cuenta_de k movs)) (primeras (map clave movs))"

section \<open>Weekly report (crear\_reporte\_excel, lines 519--716)\<close>

subsection \<open>Writing a cell\<close>

text \<open>
  Assigning a string to a cell runs \<^verbatim>\<open>check_string\<close> of openpyxl: the string is cut to its
  first 32767 characters and \<^verbatim>\<open>IllegalCharacterError\<close> is raised when what is left has a
  control character other than tab, line feed and carriage return. On the UTF-8 encoding
  a character begins at every byte that is not a continuation byte. Assigning \<^verbatim>\<open>None\<close>
  leaves the cell empty, and an integer is stored as it is.
\<close>

definition continuacion :: "char \<Rightarrow> bool" where
  "continuacion c = (128 \<le> (of_char c :: nat) \<and> (of_char c :: nat) < 192)"

fun tomar_caracteres :: "nat \<Rightarrow> string \<Rightarrow> string" where
  "tomar_caracteres n [] = []"
| "tomar_caracteres n (c # cs) =
     (if continuacion c then c # tomar_caracteres n cs
      else (case n of 0 \<Rightarrow> [] | Suc m \<Rightarrow> c # tomar_caracteres m cs))"

definition ilegal :: "char \<Rightarrow> bool" where
  "ilegal c =
     (let n = (of_char c :: nat) in n \<le> 8 \<or> n = 11 \<or> n = 12 \<or> (14 \<le> n \<and> n \<le> 31))"

definition check_string :: "string \<Rightarrow> excepcion + string" where
  "check_string s =
     (let s' = tomar_caracteres 32767 s
      in if list_ex ilegal s' then Inl IllegalCharacterError else Inr s')"

definition escribir :: "string option \<Rightarrow> excepcion + celda" where
  "escribir v =
     (case v of
        None \<Rightarrow> Inr Vacia
      | Some s \<Rightarrow> (case check_string s of Inl e \<Rightarrow> Inl e | Inr s' \<Rightarrow> Inr (Texto s')))"

subsection \<open>The header\<close>

text \<open>\<^verbatim>\<open>get_column_letter\<close> of openpyxl raises \<^verbatim>\<open>ValueError\<close> outside the columns 1 to 18278.\<close>

definition columna_valida :: "nat \<Rightarrow> bool" where
  "columna_valida col = (1 \<le> col \<and> col \<le> 18278)"

definition dias_semana :: "string list" where
  "dias_semana = [''Lun'', ''Mar'', ''Mi'' @ [CHR 0xC3, CHR 0xA9], ''Jue'', ''Vie'',
                  ''S'' @ [CHR 0xC3, CHR 0xA1] @ ''b'', ''Dom'']"

text \<open>
  The header loop over \<^verbatim>\<open>range(dias)\<close>: every day takes three columns, with the name of
  the weekday and the date over the shift letters. It starts at column 5 and returns the
  headers, the dates \<^verbatim>\<open>fecha_inicio + timedelta(days=dia_offset)\<close> and the column it ends
  at. The strings written here have no illegal character.
\<close>

fun encabezados ::
  "int \<Rightarrow> nat \<Rightarrow> nat list \<Rightarrow> excepcion + (string \<times> string list) list \<times> int list \<times> nat" where
  "encabezados fecha_inicio col [] = Inr ([], [], col)"
| "encabezados fecha_inicio col (dia_offset # resto) =
     (case date_add fecha_inicio (int dia_offset) of
        Inl e \<Rightarrow> Inl e
      | Inr fecha_dia \<Rightarrow>
          if \<not> (columna_valida col \<and> columna_valida (col + 1) \<and> columna_valida (col + 2))
            then Inl ValueError
          else
            (case encabezados fecha_inicio (col + 3) resto of
               Inl e \<Rightarrow> Inl e
             | Inr (hs, fechas, col') \<Rightarrow>
                 Inr ((dias_semana ! nat (weekday fecha_dia) @ [CHR 0x0A]
                         @ strftime_dm fecha_dia,
                       [''M'', ''T'', ''N'']) # hs,
                      fecha_dia # fechas, col')))"

subsection \<open>A data row\<close>

text \<open>
  The loop that finds the last \<^verbatim>\<open>INGRESO\<close> of a medication: the first one with the
  greatest date string. The comparison
  \<^verbatim>\<open>mov.get('fecha', '') > (ultimo_ingreso.get('fecha', '') or '')\<close> is only made when an
  \<^verbatim>\<open>INGRESO\<close> was found before, and raises \<^verbatim>\<open>TypeError\<close> when the date of \<^verbatim>\<open>mov\<close> is
  \<^verbatim>\<open>None\<close>.
\<close>

fun ultimo_ingreso ::
  "movimiento option \<Rightarrow> movimiento list \<Rightarrow> excepcion + movimiento option" where
  "ultimo_ingreso u [] = Inr u"
| "ultimo_ingreso u (mov # movs) =
     (if dict_get (tipo mov) = Some ''INGRESO''
        then (case u of
                None \<Rightarrow> ultimo_ingreso (Some mov) movs
              | Some v \<Rightarrow>
                  (case dict_get_default (fecha mov) [] of
                     None \<Rightarrow> Inl TypeError
                   | Some f \<Rightarrow>
                       if (case dict_get_default (fecha v) [] of None \<Rightarrow> [] | Some g \<Rightarrow> g) < f
                         then ultimo_ingreso (Some mov) movs
                       else ultimo_ingreso u movs))
      else ultimo_ingreso u movs)"

text \<open>
  The innermost loop: the sum of the quantities of the \<^verbatim>\<open>SALIDA\<close> movements with the date
  \<^verbatim>\<open>str(fecha_dia)\<close> and the shift \<^verbatim>\<open>turno\<close>. The cell is written only when the sum is
  positive.
\<close>

fun total_turno :: "int \<Rightarrow> movimiento list \<Rightarrow> string \<Rightarrow> string \<Rightarrow> excepcion + int" where
  "total_turno suma [] fecha_dia t = Inr suma"
| "total_turno suma (mov # movs) fecha_dia t =
     (if dict_get (fecha mov) = Some fecha_dia \<and> dict_get (turno mov) = Some t
        then (case dict_get_default (cantidad mov) 0 of
                None \<Rightarrow> Inl TypeError
              | Some q \<Rightarrow> total_turno (suma + q) movs fecha_dia t)
      else total_turno suma movs fecha_dia t)"

definition celda_total :: "int \<Rightarrow> celda" where
  "celda_total suma = (if 0 < suma then Numero suma else Vacia)"

text \<open>The loops over the shifts of a day and over the days of the period.\<close>

fun celdas_de_dia :: "movimiento list \<Rightarrow> string \<Rightarrow> string list \<Rightarrow> excepcion + celda list" where
  "celdas_de_dia movimientos_salida fecha_dia [] = Inr []"
| "celdas_de_dia movimientos_salida fecha_dia (t # ts) =
     (case total_turno 0 movimientos_salida fecha_dia t of
        Inl e \<Rightarrow> Inl e
      | Inr suma \<Rightarrow>
          (case celdas_de_dia movimientos_salida fecha_dia ts of
             Inl e \<Rightarrow> Inl e
           | Inr cs \<Rightarrow> Inr (celda_total suma # cs)))"

fun celdas_de_turnos :: "movimiento list \<Rightarrow> int list \<Rightarrow> excepcion + celda list" where
  "celdas_de_turnos movimientos_salida [] = Inr []"
| "celdas_de_turnos movimientos_salida (fecha_dia # fechas) =
     (case celdas_de_dia movimientos_salida (isoformat fecha_dia) [''M'', ''T'', ''N''] of
        Inl e \<Rightarrow> Inl e
      | Inr cs \<Rightarrow>
          (case celdas_de_turnos movimientos_salida fechas of
             Inl e \<Rightarrow> Inl e
           | Inr cs' \<Rightarrow> Inr (cs @ cs')))"

text \<open>
  The total demand of the period: both comparisons of \<^verbatim>\<open>mov.get('fecha', '')\<close> with the
  ends of the period raise \<^verbatim>\<open>TypeError\<close> on \<^verbatim>\<open>None\<close>.
\<close>

fun demanda_periodo :: "int \<Rightarrow> movimiento list \<Rightarrow> string \<Rightarrow> string \<Rightarrow> excepcion + int" where
  "demanda_periodo demanda [] inicio fin = Inr demanda"
| "demanda_periodo demanda (mov # movs) inicio fin =
     (case dict_get_default (fecha mov) [] of
        None \<Rightarrow> Inl TypeError
      | Some mov_fecha \<Rightarrow>
          if inicio \<le> mov_fecha \<and> mov_fecha \<le> fin
            then (case dict_get_default (cantidad mov) 0 of
                    None \<Rightarrow> Inl TypeError
                  | Some q \<Rightarrow> demanda_periodo (demanda + q) movs inicio fin)
          else demanda_periodo demanda movs inicio fin)"

text \<open>
  The body of the loop over the medications: one data row, or the exception that ends
  the loop, with the world as the two stock computations leave it. The dates of the
  inner loop are those of the header loop.
\<close>

definition fila_reporte ::
  "mundo \<Rightarrow> firestore \<Rightarrow> int list \<Rightarrow> int \<Rightarrow> int \<Rightarrow> doc_id \<times> medicamento
     \<Rightarrow> (excepcion + fila) \<times> mundo" where
  "fila_reporte w fs fechas fecha_inicio fecha_fin med_doc =
     (let med_id = fst med_doc;
          movs = movimientos_de fs med_id
      in case escribir (dict_get (nombre (snd med_doc))) of
           Inl e \<Rightarrow> (Inl e, w)
         | Inr celda_a \<Rightarrow>
       (case ultimo_ingreso None movs of
           Inl e \<Rightarrow> (Inl e, w)
         | Inr ultimo \<Rightarrow>
       (case (case ultimo of None \<Rightarrow> Inr Vacia | Some u \<Rightarrow> escribir (dict_get (fecha u))) of
           Inl e \<Rightarrow> (Inl e, w)
         | Inr celda_b \<Rightarrow>
       (case (case ultimo of
                None \<Rightarrow> Inr Vacia
              | Some u \<Rightarrow>
                  if verdadero_str (dict_get (fecha_vencimiento u))
                    then escribir (dict_get (fecha_vencimiento u)) else Inr Vacia) of
           Inl e \<Rightarrow> (Inl e, w)
         | Inr celda_c \<Rightarrow>
       (case calcular_stock_medicamento w med_id of
          (stock_inicial, w1) \<Rightarrow>
       (let movimientos_salida = filter (\<lambda>mov. dict_get (tipo mov) = Some ''SALIDA'') movs
        in case celdas_de_turnos movimientos_salida fechas of
           Inl e \<Rightarrow> (Inl e, w1)
         | Inr celdas \<Rightarrow>
       (case demanda_periodo 0 movimientos_salida
               (isoformat fecha_inicio) (isoformat fecha_fin) of
           Inl e \<Rightarrow> (Inl e, w1)
         | Inr demanda \<Rightarrow>
       (case calcular_stock_medicamento w1 med_id of
          (stock_actual, w2) \<Rightarrow>
            (Inr \<lparr>col_medicamento = celda_a,
                  col_f_ingreso = celda_b,
                  col_f_venc = celda_c,
                  col_stock_inicial = Numero stock_inicial,
                  celdas_turno = celdas,
                  celda_demanda = Numero demanda,
                  celda_stock = Numero stock_actual\<rparr>, w2)))))))))"

fun filas_reporte ::
  "mundo \<Rightarrow> firestore \<Rightarrow> int list \<Rightarrow> int \<Rightarrow> int \<Rightarrow> (doc_id \<times> medicamento) list
     \<Rightarrow> (excepcion + fila list) \<times> mundo" where
  "filas_reporte w fs fechas fecha_inicio fecha_fin [] = (Inr [], w)"
| "filas_reporte w fs fechas fecha_inicio fecha_fin (med_doc # resto) =
     (case fila_reporte w fs fechas fecha_inicio fecha_fin med_doc of
        (Inl e, w1) \<Rightarrow> (Inl e, w1)
      | (Inr f, w1) \<Rightarrow>
          (case filas_reporte w1 fs fechas fecha_inicio fecha_fin resto of
             (Inl e, w2) \<Rightarrow> (Inl e, w2)
           | (Inr fl, w2) \<Rightarrow> (Inr (f # fl), w2)))"

text \<open>
  \<^verbatim>\<open>db.collection('medicamentos').order_by('orden').stream()\<close>: the documents that have
  the field, in ascending order of it, \<^verbatim>\<open>None\<close> before every integer.
\<close>

definition medicamentos_ordenados :: "firestore \<Rightarrow> (doc_id \<times> medicamento) list" where
  "medicamentos_ordenados fs =
     sort_key (\<lambda>d. dict_get (orden (snd d)))
       (filter (\<lambda>d. orden (snd d) \<noteq> Ausente) (medicamentos fs))"

text \<open>
  The function: \<^verbatim>\<open>None\<close> without a database, and \<^verbatim>\<open>None\<close> with a printed line when
  anything in the \<^verbatim>\<open>try\<close> block raises. The title is the first string of the caller that
  is written to a cell; the columns of the total demand and of the current stock need
  their letters.
\<close>

definition crear_reporte_excel :: "mundo \<Rightarrow> int \<Rightarrow> int \<Rightarrow> string \<Rightarrow> hoja option \<times> mundo" where
  "crear_reporte_excel w fecha_inicio fecha_fin titulo =
     (case db w of
        None \<Rightarrow> (None, w)
      | Some c \<Rightarrow>
          (case escribir (Some titulo) of
             Inl e \<Rightarrow> (None, w\<lparr>consola := consola w @ [''Error creando reporte'']\<rparr>)
           | Inr celda_titulo \<Rightarrow>
               (let dias = fecha_fin - fecha_inicio + 1
                in case encabezados fecha_inicio 5 [0..<nat dias] of
                     Inl e \<Rightarrow> (None, w\<lparr>consola := consola w @ [''Error creando reporte'']\<rparr>)
                   | Inr (hs, fechas, col) \<Rightarrow>
                       if \<not> (columna_valida col \<and> columna_valida (col + 1))
                         then (None, w\<lparr>consola := consola w @ [''Error creando reporte'']\<rparr>)
                       else
                         (case c of
                            Inalcanzable \<Rightarrow>
                              (None, w\<lparr>consola := consola w @ [''Error creando reporte'']\<rparr>)
                          | Alcanzable fs \<Rightarrow>
                              (case filas_reporte w fs fechas fecha_inicio fecha_fin
                                      (medicamentos_ordenados fs) of
                                 (Inl e, w') \<Rightarrow>
                                   (None,
                                    w'\<lparr>consola := consola w' @ [''Error creando reporte'']\<rparr>)
                               | (Inr fl, w') \<Rightarrow>
                                   (Some \<lparr>titulo_hoja = celda_titulo, encabezado_dias = hs,
                                          col_demanda = col, col_stock = col + 1,
                                          filas = fl\<rparr>, w'))))))"

subsection \<open>generar\_reporte\_semanal\_excel (lines 718--751)\<close>

text \<open>
  The handler takes the query parameter \<^verbatim>\<open>fecha_inicio\<close>, which is a string when the
  request has it. The file is the saved workbook with its download name.
\<close>

definition generar_reporte_semanal_excel ::
  "bibliotecas \<Rightarrow> mundo \<Rightarrow> string option \<Rightarrow> respuesta \<times> mundo" where
  "generar_reporte_semanal_excel lib w arg =
     (case arg of
        None \<Rightarrow> ((400, Error ''Fecha de inicio requerida''), w)
      | Some s \<Rightarrow>
          if s = [] then ((400, Error ''Fecha de inicio requerida''), w)
          else
            (case strptime lib s of
               Inl e \<Rightarrow> ((500, ErrorExcepcion e), w)
             | Inr fecha_inicio \<Rightarrow>
                 (case date_add fecha_inicio 6 of
                    Inl e \<Rightarrow> ((500, ErrorExcepcion e), w)
                  | Inr fecha_fin \<Rightarrow>
                      (case crear_reporte_excel w fecha_inicio fecha_fin
                              (''Semana del '' @ strftime_dmy (relleno_anio lib) fecha_inicio
                                 @ '' al '' @ strftime_dmy (relleno_anio lib) fecha_fin) of
                         (None, w') \<Rightarrow> ((500, Error ''Error creando reporte''), w')
                       | (Some wb, w') \<Rightarrow>
                           ((200, Archivo (''Reporte_Semanal_''
                                             @ strftime_ymd (relleno_anio lib) fecha_inicio
                                             @ ''.xlsx'') wb), w')))))"

text \<open>
  The report in the words of the specification: the cell of a medication for a day and a
  shift holds the sum of the quantities of its \<^verbatim>\<open>SALIDA\<close> movements of that day and
  shift, and is empty when the sum is not positive.
\<close>

definition salidas_de_turno :: "firestore \<Rightarrow> doc_id \<Rightarrow> int \<Rightarrow> string \<Rightarrow> int" where
  "salidas_de_turno fs med_id fecha_dia t =
     sum_list (map cantidad_entera
       (filter (\<lambda>mov. medicamento_id mov = Valor med_id \<and> tipo mov = Valor ''SALIDA''
                     \<and> fecha mov = Valor (isoformat fecha_dia) \<and> turno mov = Valor t)
          (map snd (movimientos fs))))"

text \<open>
  The data that the report reads, as the data model has it: a stored name has no
  illegal character; a movement of a listed medication holds no \<^verbatim>\<open>None\<close> as date or as
  quantity, and its date and expiry date have no illegal character.
\<close>

definition texto_legal :: "string campo \<Rightarrow> bool" where
  "texto_legal c = (case c of Valor s \<Rightarrow> \<not> list_ex ilegal s | _ \<Rightarrow> True)"

definition datos_de_reporte :: "firestore \<Rightarrow> bool" where
  "datos_de_reporte fs =
     (list_all (\<lambda>d. texto_legal (nombre (snd d))) (medicamentos fs)
      \<and> list_all (\<lambda>mov. fecha mov \<noteq> Nulo \<and> cantidad mov \<noteq> Nulo
                      \<and> texto_legal (fecha mov) \<and> texto_legal (fecha_vencimiento mov))
          (map snd (movimientos fs)))"

section \<open>Example data\<close>

definition mov_ej :: "string \<Rightarrow> string \<Rightarrow> doc_id \<Rightarrow> int \<Rightarrow> movimiento" where
  "mov_ej t f m c =
     \<lparr>tipo = Valor t, fecha = Valor f, medicamento_id = Valor m, cantidad = Valor c,
      turno = Nulo, fecha_vencimiento = Nulo, observaciones = Nulo,
      fecha_registro = Valor 0\<rparr>"

definition fs_ej :: firestore where
  "fs_ej = \<lparr>medicamentos = [],
     movimientos = [(''a'', mov_ej ''INGRESO'' ''2024-03-01'' ''m1'' 10),
                    (''b'', mov_ej ''SALIDA'' ''2024-03-02'' ''m1'' 4)]\<rparr>"

definition dos_medicamentos :: firestore where
  "dos_medicamentos = \<lparr>medicamentos = [],
     movimientos = [(''a'', mov_ej ''INGRESO'' ''2024-03-01'' ''m1'' 10),
                    (''c'', mov_ej ''INGRESO'' ''2024-03-01'' ''m2'' 100),
                    (''b'', mov_ej ''SALIDA'' ''2024-03-02'' ''m1'' 4),
                    (''d'', mov_ej ''SALIDA'' ''2024-03-03'' ''m2'' 30)]\<rparr>"

definition dos_medicamentos' :: firestore where
  "dos_medicamentos' = \<lparr>medicamentos = [],
     movimientos = [(''d'', mov_ej ''SALIDA'' ''2024-03-03'' ''m2'' 30),
                    (''b'', mov_ej ''SALIDA'' ''2024-03-02'' ''m1'' 4),
                    (''c'', mov_ej ''INGRESO'' ''2024-03-01'' ''m2'' 100),
                    (''a'', mov_ej ''INGRESO'' ''2024-03-01'' ''m1'' 10)]\<rparr>"

definition cantidad_nula :: firestore where
  "cantidad_nula = \<lparr>medicamentos = [],
     movimientos = [(''a'', mov_ej ''INGRESO'' ''2024-03-01'' ''m1'' 10),
                    (''b'', (mov_ej ''SALIDA'' ''2024-03-02'' ''m1'' 4)\<lparr>cantidad := Nulo\<rparr>)]\<rparr>"

definition med_ej :: "string \<Rightarrow> int \<Rightarrow> int \<Rightarrow> medicamento" where
  "med_ej n s k = \<lparr>nombre = Valor n, stock_minimo = Valor s, orden = Valor k,
     fecha_creacion = Valor 0\<rparr>"

definition farmacia :: firestore where
  "farmacia = \<lparr>medicamentos = [(''m1'', med_ej ''Atropina'' 10 0),
                                 (''m2'', med_ej ''Morfina'' 10 1)],
     movimientos = [(''a'', mov_ej ''INGRESO'' ''2024-03-01'' ''m1'' 10),
                    (''b'', mov_ej ''SALIDA'' ''2024-03-02'' ''m1'' 4)]\<rparr>"

definition data_ej :: "int \<Rightarrow> string \<Rightarrow> movimiento" where
  "data_ej c f = \<lparr>tipo = Ausente, fecha = Valor f, medicamento_id = Ausente,
     cantidad = Valor c, turno = Ausente, fecha_vencimiento = Ausente,
     observaciones = Ausente, fecha_registro = Ausente\<rparr>"

definition salida_ej :: "doc_id \<Rightarrow> int \<Rightarrow> movimiento" where
  "salida_ej m c = \<lparr>tipo = Valor ''SALIDA'', fecha = Valor ''2024-03-05'',
     medicamento_id = Valor m, cantidad = Valor c, turno = Valor ''M'',
     fecha_vencimiento = Ausente, observaciones = Ausente, fecha_registro = Ausente\<rparr>"

section \<open>Properties of the derived stock\<close>

lemma get_default_eq: "t \<noteq> d \<Longrightarrow> dict_get_default c d = Some t \<longleftrightarrow> c = Valor t"
  by (cases c) (auto simp: dict_get_default_def)

lemma get_eq: "dict_get c = Some t \<longleftrightarrow> c = Valor t"
  by (cases c) (auto simp: dict_get_def)

lemma sumar_stock_acc:
  "sumar_stock (i, s) movs =
     (case sumar_stock (0, 0) movs of
        Inl e \<Rightarrow> Inl e
      | Inr (a, b) \<Rightarrow> Inr (i + a, s + b))"
proof (induction movs arbitrary: i s)
  case Nil
  show ?case by simp
next
  case (Cons mov movs)
  show ?case
  proof (cases "dict_get_default (cantidad mov) 0")
    case None
    then show ?thesis by (simp add: Cons.IH [of i s])
  next
    case (Some q)
    show ?thesis
      using Some
      by (simp add: Cons.IH [of "i + q" s] Cons.IH [of i "s + q"] Cons.IH [of i s]
          Cons.IH [of q 0] Cons.IH [of 0 q] split: sum.splits)
  qed
qed

lemma sumar_stock_valido:
  assumes "\<forall>mov \<in> set movs.
             tipo mov = Valor ''INGRESO'' \<or> tipo mov = Valor ''SALIDA'' \<longrightarrow> cantidad mov \<noteq> Nulo"
  shows "sumar_stock (0, 0) movs =
     Inr (sum_list (map cantidad_entera (filter (\<lambda>m. tipo m = Valor ''INGRESO'') movs)),
          sum_list (map cantidad_entera (filter (\<lambda>m. tipo m = Valor ''SALIDA'') movs)))"
  using assms
proof (induction movs)
  case Nil
  show ?case by simp
next
  case (Cons mov movs)
  have ih: "sumar_stock (0, 0) movs =
     Inr (sum_list (map cantidad_entera (filter (\<lambda>m. tipo m = Valor ''INGRESO'') movs)),
          sum_list (map cantidad_entera (filter (\<lambda>m. tipo m = Valor ''SALIDA'') movs)))"
    using Cons by simp
  have q: "tipo mov = Valor ''INGRESO'' \<or> tipo mov = Valor ''SALIDA'' \<longrightarrow> cantidad mov \<noteq> Nulo"
    using Cons.prems by simp
  show ?case
  proof (cases "cantidad mov")
    case Ausente
    then have "cantidad_entera mov = 0" "dict_get_default (cantidad mov) 0 = Some 0"
      by (simp_all add: cantidad_entera_def dict_get_default_def)
    then show ?thesis
      by (simp add: ih get_default_eq)
  next
    case Nulo
    then have "cantidad_entera mov = 0" by (simp add: cantidad_entera_def)
    then show ?thesis
      using q Nulo by (auto simp: ih get_default_eq)
  next
    case (Valor c)
    then have "cantidad_entera mov = c" "dict_get_default (cantidad mov) 0 = Some c"
      by (simp_all add: cantidad_entera_def dict_get_default_def)
    then show ?thesis
      by (simp add: get_default_eq sumar_stock_acc [of c 0] sumar_stock_acc [of 0 c] ih)
  qed
qed

lemma sumar_stock_invalido:
  assumes "\<exists>mov \<in> set movs.
             (tipo mov = Valor ''INGRESO'' \<or> tipo mov = Valor ''SALIDA'') \<and> cantidad mov = Nulo"
  shows "sumar_stock (i, s) movs = Inl TypeError"
  using assms
proof (induction movs arbitrary: i s)
  case Nil
  then show ?case by simp
next
  case (Cons mov movs)
  show ?case
  proof (cases "(tipo mov = Valor ''INGRESO'' \<or> tipo mov = Valor ''SALIDA'') \<and> cantidad mov = Nulo")
    case True
    then have "dict_get_default (cantidad mov) 0 = None"
      by (simp add: dict_get_default_def)
    then show ?thesis using True by (auto simp: get_default_eq)
  next
    case False
    then have "\<exists>mov \<in> set movs.
             (tipo mov = Valor ''INGRESO'' \<or> tipo mov = Valor ''SALIDA'') \<and> cantidad mov = Nulo"
      using Cons.prems by auto
    then have "sumar_stock (i', s') movs = Inl TypeError" for i' s'
      by (rule Cons.IH)
    then show ?thesis by (simp split: option.splits)
  qed
qed

lemma filtro_movimientos_de:
  "filter P (movimientos_de fs med_id) =
     filter (\<lambda>mov. medicamento_id mov = Valor med_id \<and> P mov) (map snd (movimientos fs))"
  by (induction "movimientos fs" arbitrary: fs) (auto simp: movimientos_de_def filter_map comp_def)

lemma stock_try_alcanzable:
  "stock_try (Alcanzable fs) med_id =
     (if cantidades_validas fs med_id then Inr (stock_derivado fs med_id) else Inl TypeError)"
proof (cases "cantidades_validas fs med_id")
  case True
  then have "\<forall>mov \<in> set (movimientos_de fs med_id).
             tipo mov = Valor ''INGRESO'' \<or> tipo mov = Valor ''SALIDA'' \<longrightarrow> cantidad mov \<noteq> Nulo"
    by (auto simp: cantidades_validas_def movimientos_de_def list_all_iff)
  then show ?thesis
    using True
    by (simp add: stock_try_def sumar_stock_valido stock_derivado_def filtro_movimientos_de)
next
  case False
  then have "\<exists>mov \<in> set (movimientos_de fs med_id).
             (tipo mov = Valor ''INGRESO'' \<or> tipo mov = Valor ''SALIDA'') \<and> cantidad mov = Nulo"
    by (fastforce simp: cantidades_validas_def movimientos_de_def list_all_iff)
  then show ?thesis
    using False by (simp add: stock_try_def sumar_stock_invalido)
qed

lemma calcular_stock_conectado:
  "calcular_stock_medicamento (conectado fs out) med_id =
     (if cantidades_validas fs med_id then (stock_derivado fs med_id, conectado fs out)
      else (0, conectado fs (out @ [''Error calculando stock''])))"
  by (simp add: calcular_stock_medicamento_def conectado_def stock_try_alcanzable)

lemma consola_conectado: "consola (conectado fs out) = out"
  by (simp add: conectado_def)

lemma calcular_stock_db: "db (snd (calcular_stock_medicamento w med_id)) = db w"
  by (simp add: calcular_stock_medicamento_def split: option.splits sum.splits)

lemma suma_filtrada_mset:
  "sum_list (map f (filter P xs)) = sum_mset (image_mset f (filter_mset P (mset xs)))"
proof -
  have "sum_list (map f (filter P xs)) = sum_mset (mset (map f (filter P xs)))"
    by (simp only: sum_mset_sum_list)
  then show ?thesis by simp
qed

lemma stock_derivado_mset:
  assumes "mset (movimientos fs') = mset (movimientos fs)"
  shows "stock_derivado fs' med_id = stock_derivado fs med_id"
proof -
  have "mset (map snd (movimientos fs')) = mset (map snd (movimientos fs))"
    using assms by (metis mset_map)
  then show ?thesis by (simp add: stock_derivado_def suma_filtrada_mset)
qed

lemma cantidades_validas_mset:
  assumes "mset (movimientos fs') = mset (movimientos fs)"
  shows "cantidades_validas fs' med_id = cantidades_validas fs med_id"
proof -
  have "set (movimientos fs') = set (movimientos fs)"
    using assms by (rule mset_eq_setD)
  then show ?thesis by (simp add: cantidades_validas_def list_all_iff)
qed

lemma calcular_stock_mset:
  assumes "mset (movimientos fs') = mset (movimientos fs)"
  shows "fst (calcular_stock_medicamento (conectado fs' out') med_id) =
         fst (calcular_stock_medicamento (conectado fs out) med_id)"
  using stock_derivado_mset [OF assms, of med_id] cantidades_validas_mset [OF assms, of med_id]
  by (simp add: calcular_stock_conectado)

text \<open>
  Claim C1. The derived stock of a medication is the sum of the quantities of the
  \<^verbatim>\<open>INGRESO\<close> movements that reference it minus the sum of the quantities of the
  \<^verbatim>\<open>SALIDA\<close> movements that reference it, over the whole log and whatever other
  medications the log holds (\<open>stock_derivado\<close>). On a reachable store whose movements of
  the medication hold no \<^verbatim>\<open>None\<close> as quantity, \<^verbatim>\<open>calcular_stock_medicamento\<close> returns
  that number and leaves the world, console included, as it was. Two stores holding the
  same movements in a different order have the same derived stock and the function
  returns the same number on both. The function never changes the database.
\<close>

theorem stock_signed_sum:
  "(cantidades_validas fs med_id \<longrightarrow>
      calcular_stock_medicamento (conectado fs out) med_id =
        (stock_derivado fs med_id, conectado fs out))
   \<and> (mset (movimientos fs') = mset (movimientos fs) \<longrightarrow>
        stock_derivado fs' med_id = stock_derivado fs med_id
        \<and> fst (calcular_stock_medicamento (conectado fs' out') med_id) =
          fst (calcular_stock_medicamento (conectado fs out) med_id))
   \<and> db (snd (calcular_stock_medicamento w med_id)) = db w"
  using stock_derivado_mset [of fs' fs med_id] calcular_stock_mset [of fs' fs out' med_id out]
  by (simp add: calcular_stock_conectado calcular_stock_db)

theorem stock_signed_sum_witness:
  "cantidades_validas dos_medicamentos ''m1''
   \<and> mset (movimientos dos_medicamentos') = mset (movimientos dos_medicamentos)
   \<and> calcular_stock_medicamento (conectado dos_medicamentos []) ''m1'' =
       (6, conectado dos_medicamentos [])
   \<and> fst (calcular_stock_medicamento (conectado dos_medicamentos' []) ''m1'') = 6
   \<and> fst (calcular_stock_medicamento (conectado dos_medicamentos []) ''m2'') = 70"
proof -
  have p: "mset (movimientos dos_medicamentos') = mset (movimientos dos_medicamentos)"
    by (simp add: dos_medicamentos_def dos_medicamentos'_def)
  have c: "cantidades_validas dos_medicamentos ''m1''"
          "cantidades_validas dos_medicamentos ''m2''"
    by (simp_all add: cantidades_validas_def dos_medicamentos_def mov_ej_def)
  have v: "stock_derivado dos_medicamentos ''m1'' = 6"
          "stock_derivado dos_medicamentos ''m2'' = 70"
    by (simp_all add: stock_derivado_def dos_medicamentos_def mov_ej_def cantidad_entera_def)
  show ?thesis
    using p c v
      stock_signed_sum [where fs = dos_medicamentos and fs' = dos_medicamentos'
        and med_id = "''m1''" and out = "[]" and out' = "[]"]
      stock_signed_sum [where fs = dos_medicamentos and fs' = dos_medicamentos'
        and med_id = "''m2''" and out = "[]" and out' = "[]"]
    by simp
qed

text \<open>
  Claim C6, as the code has it. The function always returns a number. Without a database
  handle it returns 0 and prints nothing. It returns 0 and prints one line when the store
  cannot be reached, and also when the store is reached and an \<^verbatim>\<open>INGRESO\<close> or
  \<^verbatim>\<open>SALIDA\<close> movement of the medication holds \<^verbatim>\<open>None\<close> as quantity. In every other case
  it returns the derived stock and prints nothing.
\<close>

theorem stock_failure_policy:
  "(db w = None \<longrightarrow> calcular_stock_medicamento w med_id = (0, w))
   \<and> (db w = Some Inalcanzable \<longrightarrow>
        calcular_stock_medicamento w med_id =
          (0, w\<lparr>consola := consola w @ [''Error calculando stock'']\<rparr>))
   \<and> (db w = Some (Alcanzable fs) \<and> \<not> cantidades_validas fs med_id \<longrightarrow>
        calcular_stock_medicamento w med_id =
          (0, w\<lparr>consola := consola w @ [''Error calculando stock'']\<rparr>))
   \<and> (db w = Some (Alcanzable fs) \<and> cantidades_validas fs med_id \<longrightarrow>
        calcular_stock_medicamento w med_id = (stock_derivado fs med_id, w))"
proof -
  have inalc: "stock_try Inalcanzable med_id = Inl ErrorFirestore"
    by (simp add: stock_try_def)
  show ?thesis
    by (simp add: calcular_stock_medicamento_def stock_try_alcanzable inalc)
qed

theorem stock_failure_policy_witness:
  "calcular_stock_medicamento \<lparr>db = None, consola = [''x'']\<rparr> ''m1'' =
     (0, \<lparr>db = None, consola = [''x'']\<rparr>)
   \<and> calcular_stock_medicamento \<lparr>db = Some Inalcanzable, consola = []\<rparr> ''m1'' =
     (0, \<lparr>db = Some Inalcanzable, consola = [''Error calculando stock'']\<rparr>)
   \<and> calcular_stock_medicamento \<lparr>db = Some (Alcanzable cantidad_nula), consola = []\<rparr> ''m1'' =
     (0, \<lparr>db = Some (Alcanzable cantidad_nula), consola = [''Error calculando stock'']\<rparr>)
   \<and> calcular_stock_medicamento \<lparr>db = Some (Alcanzable dos_medicamentos), consola = []\<rparr> ''m1'' =
     (6, \<lparr>db = Some (Alcanzable dos_medicamentos), consola = []\<rparr>)"
proof -
  have n: "\<not> cantidades_validas cantidad_nula ''m1''"
    by (simp add: cantidades_validas_def cantidad_nula_def mov_ej_def)
  have c: "cantidades_validas dos_medicamentos ''m1''"
    by (simp add: cantidades_validas_def dos_medicamentos_def mov_ej_def)
  have v: "stock_derivado dos_medicamentos ''m1'' = 6"
    by (simp add: stock_derivado_def dos_medicamentos_def mov_ej_def cantidad_entera_def)
  show ?thesis
    using n c v
      stock_failure_policy [where w = "\<lparr>db = None, consola = [''x'']\<rparr>" and med_id = "''m1''"]
      stock_failure_policy [where w = "\<lparr>db = Some Inalcanzable, consola = []\<rparr>"
        and med_id = "''m1''"]
      stock_failure_policy [where w = "\<lparr>db = Some (Alcanzable cantidad_nula), consola = []\<rparr>"
        and med_id = "''m1''" and fs = cantidad_nula]
      stock_failure_policy [where w = "\<lparr>db = Some (Alcanzable dos_medicamentos), consola = []\<rparr>"
        and med_id = "''m1''" and fs = dos_medicamentos]
    by simp
qed

text \<open>
  Claim C6 as stated asks for a log line whenever the storage cannot be reached. With
  \<^verbatim>\<open>db\<close> being \<^verbatim>\<open>None\<close> the guard \<^verbatim>\<open>if not db: return 0\<close> returns before anything is
  printed: the console is as empty after the call as before.
\<close>

theorem stock_silent_without_db:
  "calcular_stock_medicamento \<lparr>db = None, consola = []\<rparr> ''m1'' =
     (0, \<lparr>db = None, consola = []\<rparr>)"
  by (simp add: calcular_stock_medicamento_def)

text \<open>
  Claim C10. A movement whose kind is neither \<^verbatim>\<open>INGRESO\<close> nor \<^verbatim>\<open>SALIDA\<close> (an absent
  kind included), or whose quantity is absent, adds nothing to the derived stock of any
  medication and causes no error: with the record in the log the \<^verbatim>\<open>try\<close> block ends
  as it does without the record, with the same value or the same exception, so
  \<^verbatim>\<open>calcular_stock_medicamento\<close> returns the same number and prints the same.
\<close>

theorem stock_ignores_unknown_records:
  "(tipo mov \<noteq> Valor ''INGRESO'' \<and> tipo mov \<noteq> Valor ''SALIDA'') \<or> cantidad mov = Ausente \<longrightarrow>
     stock_derivado (fs\<lparr>movimientos := xs @ [(i, mov)] @ ys\<rparr>) med_id =
       stock_derivado (fs\<lparr>movimientos := xs @ ys\<rparr>) med_id
     \<and> stock_try (Alcanzable (fs\<lparr>movimientos := xs @ [(i, mov)] @ ys\<rparr>)) med_id =
       stock_try (Alcanzable (fs\<lparr>movimientos := xs @ ys\<rparr>)) med_id
     \<and> fst (calcular_stock_medicamento
              (conectado (fs\<lparr>movimientos := xs @ [(i, mov)] @ ys\<rparr>) out) med_id) =
       fst (calcular_stock_medicamento (conectado (fs\<lparr>movimientos := xs @ ys\<rparr>) out) med_id)
     \<and> consola (snd (calcular_stock_medicamento
              (conectado (fs\<lparr>movimientos := xs @ [(i, mov)] @ ys\<rparr>) out) med_id)) =
       consola (snd (calcular_stock_medicamento
              (conectado (fs\<lparr>movimientos := xs @ ys\<rparr>) out) med_id))"
proof (intro impI)
  assume h: "(tipo mov \<noteq> Valor ''INGRESO'' \<and> tipo mov \<noteq> Valor ''SALIDA'') \<or> cantidad mov = Ausente"
  have d: "stock_derivado (fs\<lparr>movimientos := xs @ [(i, mov)] @ ys\<rparr>) med_id =
       stock_derivado (fs\<lparr>movimientos := xs @ ys\<rparr>) med_id"
    using h by (auto simp: stock_derivado_def cantidad_entera_def)
  have c: "cantidades_validas (fs\<lparr>movimientos := xs @ [(i, mov)] @ ys\<rparr>) med_id =
       cantidades_validas (fs\<lparr>movimientos := xs @ ys\<rparr>) med_id"
    using h by (auto simp: cantidades_validas_def)
  show "stock_derivado (fs\<lparr>movimientos := xs @ [(i, mov)] @ ys\<rparr>) med_id =
       stock_derivado (fs\<lparr>movimientos := xs @ ys\<rparr>) med_id
     \<and> stock_try (Alcanzable (fs\<lparr>movimientos := xs @ [(i, mov)] @ ys\<rparr>)) med_id =
       stock_try (Alcanzable (fs\<lparr>movimientos := xs @ ys\<rparr>)) med_id
     \<and> fst (calcular_stock_medicamento
              (conectado (fs\<lparr>movimientos := xs @ [(i, mov)] @ ys\<rparr>) out) med_id) =
       fst (calcular_stock_medicamento (conectado (fs\<lparr>movimientos := xs @ ys\<rparr>) out) med_id)
     \<and> consola (snd (calcular_stock_medicamento
              (conectado (fs\<lparr>movimientos := xs @ [(i, mov)] @ ys\<rparr>) out) med_id)) =
       consola (snd (calcular_stock_medicamento
              (conectado (fs\<lparr>movimientos := xs @ ys\<rparr>) out) med_id))"
    using d c by (simp add: stock_try_alcanzable calcular_stock_conectado consola_conectado)
qed

theorem stock_ignores_unknown_records_witness:
  "stock_try (Alcanzable (dos_medicamentos\<lparr>movimientos := movimientos dos_medicamentos @
        [(''e'', mov_ej ''AJUSTE'' ''2024-03-03'' ''m1'' 99)] @ []\<rparr>)) ''m1'' = Inr 6
   \<and> stock_try (Alcanzable (dos_medicamentos\<lparr>movimientos := movimientos dos_medicamentos @
        [(''f'', (mov_ej ''SALIDA'' ''2024-03-03'' ''m1'' 0)\<lparr>cantidad := Ausente\<rparr>)] @ []\<rparr>))
       ''m1'' = Inr 6
   \<and> stock_try (Alcanzable (dos_medicamentos\<lparr>movimientos := movimientos dos_medicamentos @
        [(''g'', (mov_ej ''INGRESO'' ''2024-03-03'' ''m1'' 5)\<lparr>tipo := Ausente\<rparr>)] @ []\<rparr>))
       ''m1'' = Inr 6"
proof -
  have v: "stock_try (Alcanzable (dos_medicamentos\<lparr>movimientos :=
             movimientos dos_medicamentos @ []\<rparr>)) ''m1'' = Inr 6"
    by (simp add: stock_try_def movimientos_de_def dos_medicamentos_def mov_ej_def
        dict_get_default_def)
  have t: "tipo (mov_ej ''AJUSTE'' ''2024-03-03'' ''m1'' 99) \<noteq> Valor ''INGRESO''
         \<and> tipo (mov_ej ''AJUSTE'' ''2024-03-03'' ''m1'' 99) \<noteq> Valor ''SALIDA''"
    by (simp add: mov_ej_def)
  have q: "cantidad ((mov_ej ''SALIDA'' ''2024-03-03'' ''m1'' 0)\<lparr>cantidad := Ausente\<rparr>) = Ausente"
    by simp
  have a: "tipo ((mov_ej ''INGRESO'' ''2024-03-03'' ''m1'' 5)\<lparr>tipo := Ausente\<rparr>) \<noteq> Valor ''INGRESO''
         \<and> tipo ((mov_ej ''INGRESO'' ''2024-03-03'' ''m1'' 5)\<lparr>tipo := Ausente\<rparr>) \<noteq> Valor ''SALIDA''"
    by simp
  show ?thesis
    using v t q a
      stock_ignores_unknown_records
        [where mov = "mov_ej ''AJUSTE'' ''2024-03-03'' ''m1'' 99" and fs = dos_medicamentos
           and xs = "movimientos dos_medicamentos" and i = "''e''" and ys = "[]" and out = "[]"
           and med_id = "''m1''"]
      stock_ignores_unknown_records
        [where mov = "(mov_ej ''SALIDA'' ''2024-03-03'' ''m1'' 0)\<lparr>cantidad := Ausente\<rparr>"
           and fs = dos_medicamentos and xs = "movimientos dos_medicamentos" and i = "''f''"
           and ys = "[]" and out = "[]" and med_id = "''m1''"]
      stock_ignores_unknown_records
        [where mov = "(mov_ej ''INGRESO'' ''2024-03-03'' ''m1'' 5)\<lparr>tipo := Ausente\<rparr>"
           and fs = dos_medicamentos and xs = "movimientos dos_medicamentos" and i = "''g''"
           and ys = "[]" and out = "[]" and med_id = "''m1''"]
    by simp
qed

section \<open>Stock check at insertion\<close>

lemma db_conectado: "db (conectado fs out) = Some (Alcanzable fs)"
  by (simp add: conectado_def)

lemma conectado_db_update:
  "(conectado fs out)\<lparr>db := Some (Alcanzable fs')\<rparr> = conectado fs' out"
  by (simp add: conectado_def)

lemma agregar_movimiento_conectado:
  "agregar_movimiento (conectado fs out) (Alcanzable fs) t f m q data nid ahora =
     ((201, Creado nid ''Movimiento registrado''),
      conectado (fs\<lparr>movimientos := movimientos fs @
        [(nid, \<lparr>tipo = Valor t, fecha = Valor f, medicamento_id = Valor m,
                cantidad = Valor q,
                turno = almacenar (dict_get (turno data)),
                fecha_vencimiento = almacenar (dict_get (fecha_vencimiento data)),
                observaciones = almacenar (dict_get (observaciones data)),
                fecha_registro = Valor ahora\<rparr>)]\<rparr>) out)"
  by (simp only: agregar_movimiento_def cliente.case conectado_db_update)

lemma crear_movimiento_salida:
  assumes "tipo data = Valor ''SALIDA''" "medicamento_id data = Valor m"
    and "cantidad data = Valor q" "fecha data = Valor f" "f \<noteq> []" "m \<noteq> []" "0 < q"
    and "cantidades_validas fs m"
  shows "crear_movimiento (conectado fs out) data nid ahora =
     (if stock_derivado fs m < q
        then ((400, ErrorStock (stock_derivado fs m) q), conectado fs out)
      else ((201, Creado nid ''Movimiento registrado''),
            conectado (fs\<lparr>movimientos := movimientos fs @
              [(nid, \<lparr>tipo = Valor ''SALIDA'', fecha = Valor f, medicamento_id = Valor m,
                      cantidad = Valor q,
                      turno = almacenar (dict_get (turno data)),
                      fecha_vencimiento = almacenar (dict_get (fecha_vencimiento data)),
                      observaciones = almacenar (dict_get (observaciones data)),
                      fecha_registro = Valor ahora\<rparr>)]\<rparr>) out))"
  using assms
  by (simp add: crear_movimiento_def db_conectado calcular_stock_conectado
      agregar_movimiento_conectado dict_get_def)

lemma crear_movimiento_rechazo:
  assumes "tipo data = Valor ''SALIDA''" "medicamento_id data = Valor m"
    and "cantidad data = Valor q" "cantidades_validas fs m" "stock_derivado fs m < q"
  shows "fst (fst (crear_movimiento (conectado fs out) data nid ahora)) = 400
       \<and> snd (crear_movimiento (conectado fs out) data nid ahora) = conectado fs out"
proof (cases "fecha data")
  case Ausente
  then show ?thesis using assms by (simp add: crear_movimiento_def db_conectado dict_get_def)
next
  case Nulo
  then show ?thesis using assms by (simp add: crear_movimiento_def db_conectado dict_get_def)
next
  case (Valor f)
  show ?thesis
  proof (cases "f = [] \<or> m = [] \<or> q \<le> 0")
    case True
    then show ?thesis using assms Valor
      by (auto simp: crear_movimiento_def db_conectado dict_get_def)
  next
    case False
    then show ?thesis
      using assms Valor
        crear_movimiento_salida [of data m q f fs out nid ahora] by simp
  qed
qed

lemma stock_tras_salida:
  assumes "tipo mov = Valor ''SALIDA''" "medicamento_id mov = Valor m" "cantidad mov = Valor q"
  shows "stock_derivado (fs\<lparr>movimientos := movimientos fs @ [(nid, mov)]\<rparr>) m =
         stock_derivado fs m - q"
  using assms by (simp add: stock_derivado_def cantidad_entera_def)

text \<open>
  Claim C2. The current derived stock of the referenced medication is \<open>stock_derivado\<close>,
  the signed sum over the movements of the log that reference that medication. On a
  reachable store whose movements of the medication hold no \<^verbatim>\<open>None\<close> as quantity (the
  handlers never store one), a request for a \<^verbatim>\<open>SALIDA\<close> whose quantity exceeds the
  derived stock is answered with status 400 and the world (the movement log, hence every
  derived stock) is left as it was. A \<^verbatim>\<open>SALIDA\<close> with a date, a medication id and a
  positive quantity not above the derived stock is answered with 201, the movement is
  appended to the log, and the derived stock decreases by the quantity.
\<close>

theorem salida_checked_against_stock:
  assumes "tipo data = Valor ''SALIDA''"
    and "medicamento_id data = Valor m"
    and "cantidad data = Valor q"
    and "cantidades_validas fs m"
  shows "(stock_derivado fs m < q \<longrightarrow>
            fst (fst (crear_movimiento (conectado fs out) data nid ahora)) = 400
          \<and> snd (crear_movimiento (conectado fs out) data nid ahora) = conectado fs out)
       \<and> (0 < q \<and> q \<le> stock_derivado fs m
            \<and> verdadero_str (dict_get (fecha data)) \<and> m \<noteq> [] \<longrightarrow>
            crear_movimiento (conectado fs out) data nid ahora =
              ((201, Creado nid ''Movimiento registrado''),
               conectado (fs\<lparr>movimientos := movimientos fs @
                 [(nid, \<lparr>tipo = Valor ''SALIDA'', fecha = fecha data,
                         medicamento_id = Valor m, cantidad = Valor q,
                         turno = almacenar (dict_get (turno data)),
                         fecha_vencimiento = almacenar (dict_get (fecha_vencimiento data)),
                         observaciones = almacenar (dict_get (observaciones data)),
                         fecha_registro = Valor ahora\<rparr>)]\<rparr>) out)
          \<and> stock_derivado (fs\<lparr>movimientos := movimientos fs @
                 [(nid, \<lparr>tipo = Valor ''SALIDA'', fecha = fecha data,
                         medicamento_id = Valor m, cantidad = Valor q,
                         turno = almacenar (dict_get (turno data)),
                         fecha_vencimiento = almacenar (dict_get (fecha_vencimiento data)),
                         observaciones = almacenar (dict_get (observaciones data)),
                         fecha_registro = Valor ahora\<rparr>)]\<rparr>) m =
              stock_derivado fs m - q)"
proof -
  have rechazo: "stock_derivado fs m < q \<longrightarrow>
            fst (fst (crear_movimiento (conectado fs out) data nid ahora)) = 400
          \<and> snd (crear_movimiento (conectado fs out) data nid ahora) = conectado fs out"
    using crear_movimiento_rechazo [OF assms] by simp
  have acepta: "crear_movimiento (conectado fs out) data nid ahora =
              ((201, Creado nid ''Movimiento registrado''),
               conectado (fs\<lparr>movimientos := movimientos fs @
                 [(nid, \<lparr>tipo = Valor ''SALIDA'', fecha = fecha data,
                         medicamento_id = Valor m, cantidad = Valor q,
                         turno = almacenar (dict_get (turno data)),
                         fecha_vencimiento = almacenar (dict_get (fecha_vencimiento data)),
                         observaciones = almacenar (dict_get (observaciones data)),
                         fecha_registro = Valor ahora\<rparr>)]\<rparr>) out)"
    if q0: "0 < q" and qs: "q \<le> stock_derivado fs m"
      and fe: "verdadero_str (dict_get (fecha data))" and m0: "m \<noteq> []"
  proof -
    obtain f where f: "fecha data = Valor f" "f \<noteq> []"
      using fe by (cases "fecha data") (auto simp: verdadero_str_def dict_get_def)
    show ?thesis
      using crear_movimiento_salida [OF assms(1-3) f m0 q0 assms(4), of out nid ahora] qs f
      by simp
  qed
  have despues: "stock_derivado (fs\<lparr>movimientos := movimientos fs @
                 [(nid, \<lparr>tipo = Valor ''SALIDA'', fecha = fecha data,
                         medicamento_id = Valor m, cantidad = Valor q,
                         turno = almacenar (dict_get (turno data)),
                         fecha_vencimiento = almacenar (dict_get (fecha_vencimiento data)),
                         observaciones = almacenar (dict_get (observaciones data)),
                         fecha_registro = Valor ahora\<rparr>)]\<rparr>) m =
              stock_derivado fs m - q"
    by (intro stock_tras_salida) simp_all
  show ?thesis using rechazo acepta despues by blast
qed

theorem salida_checked_against_stock_witness:
  "crear_movimiento (conectado dos_medicamentos []) (salida_ej ''m1'' 7) ''n1'' 9 =
     ((400, ErrorStock 6 7), conectado dos_medicamentos [])
   \<and> crear_movimiento (conectado dos_medicamentos []) (salida_ej ''m1'' 6) ''n1'' 9 =
     ((201, Creado ''n1'' ''Movimiento registrado''),
      conectado (dos_medicamentos\<lparr>movimientos := movimientos dos_medicamentos @
        [(''n1'', \<lparr>tipo = Valor ''SALIDA'', fecha = Valor ''2024-03-05'',
                   medicamento_id = Valor ''m1'', cantidad = Valor 6,
                   turno = Valor ''M'', fecha_vencimiento = Nulo, observaciones = Nulo,
                   fecha_registro = Valor 9\<rparr>)]\<rparr>) [])
   \<and> stock_derivado (dos_medicamentos\<lparr>movimientos := movimientos dos_medicamentos @
        [(''n1'', \<lparr>tipo = Valor ''SALIDA'', fecha = Valor ''2024-03-05'',
                   medicamento_id = Valor ''m1'', cantidad = Valor 6,
                   turno = Valor ''M'', fecha_vencimiento = Nulo, observaciones = Nulo,
                   fecha_registro = Valor 9\<rparr>)]\<rparr>) ''m1'' = 0"
proof -
  have c: "cantidades_validas dos_medicamentos ''m1''"
    by (simp add: cantidades_validas_def dos_medicamentos_def mov_ej_def)
  have s: "stock_derivado dos_medicamentos ''m1'' = 6"
    by (simp add: stock_derivado_def dos_medicamentos_def mov_ej_def cantidad_entera_def)
  have r: "crear_movimiento (conectado dos_medicamentos []) (salida_ej ''m1'' 7) ''n1'' 9 =
     ((400, ErrorStock 6 7), conectado dos_medicamentos [])"
    using c s
    by (simp add: crear_movimiento_def db_conectado calcular_stock_conectado salida_ej_def
        dict_get_def)
  have h: "tipo (salida_ej ''m1'' k) = Valor ''SALIDA''
     \<and> medicamento_id (salida_ej ''m1'' k) = Valor ''m1''
     \<and> cantidad (salida_ej ''m1'' k) = Valor k
     \<and> fecha (salida_ej ''m1'' k) = Valor ''2024-03-05''
     \<and> verdadero_str (dict_get (fecha (salida_ej ''m1'' k)))
     \<and> almacenar (dict_get (turno (salida_ej ''m1'' k))) = Valor ''M''
     \<and> almacenar (dict_get (fecha_vencimiento (salida_ej ''m1'' k))) = Nulo
     \<and> almacenar (dict_get (observaciones (salida_ej ''m1'' k))) = Nulo" for k
    by (simp add: salida_ej_def verdadero_str_def dict_get_def almacenar_def)
  show ?thesis
    using c s r h [of 6] h [of 7]
      salida_checked_against_stock [where data = "salida_ej ''m1'' 7" and m = "''m1''"
        and q = 7 and fs = dos_medicamentos and out = "[]" and nid = "''n1''" and ahora = 9]
      salida_checked_against_stock [where data = "salida_ej ''m1'' 6" and m = "''m1''"
        and q = 6 and fs = dos_medicamentos and out = "[]" and nid = "''n1''" and ahora = 9]
    by (simp add: verdadero_str_def dict_get_def)
qed

section \<open>Deleting and creating medications\<close>

lemma movimientos_de_vacio:
  "movimientos_de fs ident = [] \<longleftrightarrow>
     \<not> (\<exists>d \<in> set (movimientos fs). medicamento_id (snd d) = Valor ident)"
  by (auto simp: movimientos_de_def filter_empty_conv)

text \<open>
  Claim C5. On a reachable store, deleting a medication that some movement references is
  answered with status 400 and the world, the medication included, is left as it was.
  Deleting a medication that no movement references is answered with 200 and afterwards no
  document of the collection has that id.
\<close>

theorem delete_blocked_by_movements:
  "((\<exists>d \<in> set (movimientos fs). medicamento_id (snd d) = Valor ident) \<longrightarrow>
      eliminar_medicamento_ruta (conectado fs out) ident =
        ((400, ErrorAsociados (length (movimientos_de fs ident))), conectado fs out)
      \<and> 0 < length (movimientos_de fs ident))
   \<and> (\<not> (\<exists>d \<in> set (movimientos fs). medicamento_id (snd d) = Valor ident) \<longrightarrow>
      eliminar_medicamento_ruta (conectado fs out) ident =
        ((200, Mensaje ''Medicamento eliminado exitosamente''),
         conectado (fs\<lparr>medicamentos :=
           filter (\<lambda>d. fst d \<noteq> ident) (medicamentos fs)\<rparr>) out)
      \<and> ident \<notin> fst ` set (filter (\<lambda>d. fst d \<noteq> ident) (medicamentos fs)))"
  using movimientos_de_vacio [of fs ident]
  by (auto simp: eliminar_medicamento_ruta_def db_conectado conectado_db_update Let_def)

theorem delete_blocked_by_movements_witness:
  "eliminar_medicamento_ruta (conectado farmacia []) ''m1'' =
     ((400, ErrorAsociados 2), conectado farmacia [])
   \<and> eliminar_medicamento_ruta (conectado farmacia []) ''m2'' =
     ((200, Mensaje ''Medicamento eliminado exitosamente''),
      conectado (farmacia\<lparr>medicamentos := [(''m1'', med_ej ''Atropina'' 10 0)]\<rparr>) [])"
proof -
  have a: "\<exists>d \<in> set (movimientos farmacia). medicamento_id (snd d) = Valor ''m1''"
    by (simp add: farmacia_def mov_ej_def)
  have b: "\<not> (\<exists>d \<in> set (movimientos farmacia). medicamento_id (snd d) = Valor ''m2'')"
    by (simp add: farmacia_def mov_ej_def)
  have n: "length (movimientos_de farmacia ''m1'') = 2"
    by (simp add: movimientos_de_def farmacia_def mov_ej_def)
  have f: "filter (\<lambda>d. fst d \<noteq> ''m2'') (medicamentos farmacia) =
             [(''m1'', med_ej ''Atropina'' 10 0)]"
    by (simp add: farmacia_def)
  show ?thesis
    using a b n f
      delete_blocked_by_movements [of farmacia "''m1''" "[]"]
      delete_blocked_by_movements [of farmacia "''m2''" "[]"]
    by simp
qed

lemma max_orden_sin_nulos:
  assumes "\<forall>d \<in> set (medicamentos fs). orden (snd d) \<noteq> Nulo"
  shows "\<exists>k. max_orden fs = Some k"
proof (cases "list_all (\<lambda>d. orden (snd d) = Ausente) (medicamentos fs)")
  case True
  then show ?thesis by (simp add: max_orden_def)
next
  case False
  then obtain d where d: "d \<in> set (medicamentos fs)" "orden (snd d) \<noteq> Ausente"
    by (auto simp: list_all_iff)
  then obtain k where "orden (snd d) = Valor k"
    using assms by (cases "orden (snd d)") auto
  then have "k \<in> set (List.map_filter (\<lambda>d. dict_get (orden (snd d))) (medicamentos fs))"
    using d(1) by (force simp: List.map_filter_def dict_get_def)
  then have "List.map_filter (\<lambda>d. dict_get (orden (snd d))) (medicamentos fs) \<noteq> []"
    by auto
  then show ?thesis
    using False by (auto simp: max_orden_def split: list.splits)
qed

lemma crear_medicamento_conectado:
  assumes "nombre data = Valor n"
  shows "crear_medicamento (conectado fs out) data nid ahora =
     (if strip n = []
        then ((400, Error ''El nombre del medicamento es obligatorio''), conectado fs out)
      else case dict_get_default (stock_minimo data) 10 of
        None \<Rightarrow> ((500, ErrorExcepcion TypeError), conectado fs out)
      | Some s \<Rightarrow>
          if s < 1
            then ((400, Error (''El stock m'' @ [CHR 0xC3, CHR 0xAD]
                                 @ ''nimo debe ser mayor a 0'')), conectado fs out)
          else if \<exists>d \<in> set (medicamentos fs). nombre (snd d) = Valor (strip n)
            then ((409, Error ''El medicamento ya existe''), conectado fs out)
          else case max_orden fs of
            None \<Rightarrow> ((500, ErrorExcepcion TypeError), conectado fs out)
          | Some k \<Rightarrow>
              ((201, MedicamentoCreado nid (strip n) s ''Medicamento agregado exitosamente''),
               conectado (fs\<lparr>medicamentos := medicamentos fs @
                 [(nid, \<lparr>nombre = Valor (strip n), stock_minimo = Valor s,
                         orden = Valor (k + 1), fecha_creacion = Valor ahora\<rparr>)]\<rparr>) out))"
  using assms
  by (auto simp: crear_medicamento_def db_conectado conectado_db_update Let_def
      dict_get_default_def filter_empty_conv split: option.splits campo.splits)

text \<open>
  Claim C7. On a reachable store, a request whose name is a string and whose trimmed name
  is the name of a stored medication is always rejected, with one of the statuses 400,
  409 and 500, and changes nothing. When the request is one of the data model (the
  trimmed name is not empty and the minimum stock is absent, for the default 10, or an
  integer of at least 1) the rejection is the conflict error 409. A request of the data
  model with a name that no stored medication has is answered with 201, and the
  medication is appended to the collection with the trimmed name and the minimum stock,
  provided no stored medication holds \<^verbatim>\<open>None\<close> as order.
\<close>

theorem duplicate_name_rejected:
  "(nombre data = Valor n
      \<and> (\<exists>d \<in> set (medicamentos fs). nombre (snd d) = Valor (strip n)) \<longrightarrow>
      snd (crear_medicamento (conectado fs out) data nid ahora) = conectado fs out
      \<and> fst (fst (crear_medicamento (conectado fs out) data nid ahora)) \<in> {400, 409, 500}
      \<and> (strip n \<noteq> []
           \<and> (stock_minimo data = Ausente \<or> (\<exists>s. stock_minimo data = Valor s \<and> 1 \<le> s)) \<longrightarrow>
           fst (crear_medicamento (conectado fs out) data nid ahora) =
             (409, Error ''El medicamento ya existe'')))
   \<and> (nombre data = Valor n \<and> strip n \<noteq> []
        \<and> ((stock_minimo data = Ausente \<and> s = 10) \<or> (stock_minimo data = Valor s \<and> 1 \<le> s))
        \<and> (\<forall>d \<in> set (medicamentos fs). nombre (snd d) \<noteq> Valor (strip n))
        \<and> (\<forall>d \<in> set (medicamentos fs). orden (snd d) \<noteq> Nulo) \<longrightarrow>
      (\<exists>k. crear_medicamento (conectado fs out) data nid ahora =
        ((201, MedicamentoCreado nid (strip n) s ''Medicamento agregado exitosamente''),
         conectado (fs\<lparr>medicamentos := medicamentos fs @
           [(nid, \<lparr>nombre = Valor (strip n), stock_minimo = Valor s,
                   orden = Valor k, fecha_creacion = Valor ahora\<rparr>)]\<rparr>) out)))"
proof -
  have dup: "snd (crear_medicamento (conectado fs out) data nid ahora) = conectado fs out
      \<and> fst (fst (crear_medicamento (conectado fs out) data nid ahora)) \<in> {400, 409, 500}
      \<and> (strip n \<noteq> []
           \<and> (stock_minimo data = Ausente \<or> (\<exists>s. stock_minimo data = Valor s \<and> 1 \<le> s)) \<longrightarrow>
           fst (crear_medicamento (conectado fs out) data nid ahora) =
             (409, Error ''El medicamento ya existe''))"
    if a: "nombre data = Valor n"
      and b: "\<exists>d \<in> set (medicamentos fs). nombre (snd d) = Valor (strip n)"
    using b
    by (cases "stock_minimo data")
       (auto simp: crear_medicamento_conectado [OF a] dict_get_default_def)
  have nuevo: "\<exists>k. crear_medicamento (conectado fs out) data nid ahora =
        ((201, MedicamentoCreado nid (strip n) s ''Medicamento agregado exitosamente''),
         conectado (fs\<lparr>medicamentos := medicamentos fs @
           [(nid, \<lparr>nombre = Valor (strip n), stock_minimo = Valor s,
                   orden = Valor k, fecha_creacion = Valor ahora\<rparr>)]\<rparr>) out)"
    if a: "nombre data = Valor n" and b: "strip n \<noteq> []"
      and c: "(stock_minimo data = Ausente \<and> s = 10) \<or> (stock_minimo data = Valor s \<and> 1 \<le> s)"
      and d: "\<forall>d \<in> set (medicamentos fs). nombre (snd d) \<noteq> Valor (strip n)"
      and e: "\<forall>d \<in> set (medicamentos fs). orden (snd d) \<noteq> Nulo"
  proof -
    obtain k where k: "max_orden fs = Some k"
      using max_orden_sin_nulos [OF e] by blast
    have g: "dict_get_default (stock_minimo data) 10 = Some s" "\<not> s < 1"
      using c by (auto simp: dict_get_default_def)
    have "crear_medicamento (conectado fs out) data nid ahora =
        ((201, MedicamentoCreado nid (strip n) s ''Medicamento agregado exitosamente''),
         conectado (fs\<lparr>medicamentos := medicamentos fs @
           [(nid, \<lparr>nombre = Valor (strip n), stock_minimo = Valor s,
                   orden = Valor (k + 1), fecha_creacion = Valor ahora\<rparr>)]\<rparr>) out)"
      using b d g k by (simp add: crear_medicamento_conectado [OF a])
    then show ?thesis by (rule exI)
  qed
  show ?thesis using dup nuevo by blast
qed

lemma strip_atropina: "strip (''  Atropina'' @ [CHR 0xC2, CHR 0xA0]) = ''Atropina''"
  by (simp add: strip_def espacio1_def espacio2_def espacio3_def)

lemma strip_dipirona: "strip ''Dipirona'' = ''Dipirona''"
  by (simp add: strip_def espacio1_def espacio2_def espacio3_def)

lemma max_orden_farmacia: "max_orden farmacia = Some 1"
  by (simp add: max_orden_def farmacia_def med_ej_def List.map_filter_def dict_get_def)

theorem duplicate_name_rejected_witness:
  "crear_medicamento (conectado farmacia [])
     \<lparr>nombre = Valor (''  Atropina'' @ [CHR 0xC2, CHR 0xA0]), stock_minimo = Valor 5,
      orden = Ausente, fecha_creacion = Ausente\<rparr> ''n1'' 7 =
     ((409, Error ''El medicamento ya existe''), conectado farmacia [])
   \<and> crear_medicamento (conectado farmacia [])
     \<lparr>nombre = Valor ''Dipirona'', stock_minimo = Ausente, orden = Ausente,
      fecha_creacion = Ausente\<rparr> ''n1'' 7 =
     ((201, MedicamentoCreado ''n1'' ''Dipirona'' 10 ''Medicamento agregado exitosamente''),
      conectado (farmacia\<lparr>medicamentos := medicamentos farmacia @
        [(''n1'', \<lparr>nombre = Valor ''Dipirona'', stock_minimo = Valor 10, orden = Valor 2,
                   fecha_creacion = Valor 7\<rparr>)]\<rparr>) [])"
proof -
  let ?dup = "\<lparr>nombre = Valor (''  Atropina'' @ [CHR 0xC2, CHR 0xA0]), stock_minimo = Valor 5,
      orden = Ausente, fecha_creacion = Ausente\<rparr>"
  let ?new = "\<lparr>nombre = Valor ''Dipirona'', stock_minimo = Ausente, orden = Ausente,
      fecha_creacion = Ausente\<rparr>"
  have d2: "\<exists>d \<in> set (medicamentos farmacia). nombre (snd d) = Valor ''Atropina''"
    by (simp add: farmacia_def med_ej_def)
  have n2: "\<forall>d \<in> set (medicamentos farmacia). nombre (snd d) \<noteq> Valor ''Dipirona''"
    by (simp add: farmacia_def med_ej_def)
  have n3: "\<forall>d \<in> set (medicamentos farmacia). orden (snd d) \<noteq> Nulo"
    by (simp add: farmacia_def med_ej_def)
  have r1: "snd (crear_medicamento (conectado farmacia []) ?dup ''n1'' 7) = conectado farmacia []
          \<and> fst (crear_medicamento (conectado farmacia []) ?dup ''n1'' 7) =
              (409, Error ''El medicamento ya existe'')"
    using d2 strip_atropina
      duplicate_name_rejected [where fs = farmacia and data = ?dup and out = "[]"
        and nid = "''n1''" and ahora = 7 and n = "''  Atropina'' @ [CHR 0xC2, CHR 0xA0]"
        and s = 5]
    by simp
  have "\<exists>k. crear_medicamento (conectado farmacia []) ?new ''n1'' 7 =
     ((201, MedicamentoCreado ''n1'' ''Dipirona'' 10 ''Medicamento agregado exitosamente''),
      conectado (farmacia\<lparr>medicamentos := medicamentos farmacia @
        [(''n1'', \<lparr>nombre = Valor ''Dipirona'', stock_minimo = Valor 10, orden = Valor k,
                   fecha_creacion = Valor 7\<rparr>)]\<rparr>) [])"
    using n2 n3 strip_dipirona
      duplicate_name_rejected [where fs = farmacia and data = ?new and out = "[]"
        and nid = "''n1''" and ahora = 7 and n = "''Dipirona''" and s = 10]
    by simp
  then obtain k where k: "crear_medicamento (conectado farmacia []) ?new ''n1'' 7 =
     ((201, MedicamentoCreado ''n1'' ''Dipirona'' 10 ''Medicamento agregado exitosamente''),
      conectado (farmacia\<lparr>medicamentos := medicamentos farmacia @
        [(''n1'', \<lparr>nombre = Valor ''Dipirona'', stock_minimo = Valor 10, orden = Valor k,
                   fecha_creacion = Valor 7\<rparr>)]\<rparr>) [])"
    by blast
  have "crear_medicamento (conectado farmacia []) ?new ''n1'' 7 =
     ((201, MedicamentoCreado ''n1'' ''Dipirona'' 10 ''Medicamento agregado exitosamente''),
      conectado (farmacia\<lparr>medicamentos := medicamentos farmacia @
        [(''n1'', \<lparr>nombre = Valor ''Dipirona'', stock_minimo = Valor 10, orden = Valor 2,
                   fecha_creacion = Valor 7\<rparr>)]\<rparr>) [])"
    using n2 strip_dipirona max_orden_farmacia
    by (simp add: crear_medicamento_conectado dict_get_default_def)
  then show ?thesis using r1 k by (simp add: prod_eq_iff)
qed

section \<open>Updating and deleting movements\<close>

lemma actualizar_movimiento_conectado:
  assumes "ident \<in> fst ` set (movimientos fs)" "cantidad data = Valor q" "1 \<le> q"
    and "fecha data = Valor f" "f \<noteq> []"
  shows "actualizar_movimiento (conectado fs out) ident data =
     ((200, Mensaje ''Movimiento actualizado''),
      conectado (fs\<lparr>movimientos :=
        map (\<lambda>d. if fst d = ident
                   then (fst d, aplicar_update q f (dict_get (turno data)) (snd d)) else d)
            (movimientos fs)\<rparr>) out)"
  using assms
  by (simp add: actualizar_movimiento_def db_conectado conectado_db_update dict_get_def)

lemma eliminar_movimiento_conectado:
  "eliminar_movimiento (conectado fs out) ident =
     ((200, Mensaje ''Movimiento eliminado''),
      conectado (fs\<lparr>movimientos := filter (\<lambda>d. fst d \<noteq> ident) (movimientos fs)\<rparr>) out)"
  by (simp add: eliminar_movimiento_def db_conectado conectado_db_update)

lemma stock_conectado_ej:
  "fst (calcular_stock_medicamento (conectado fs out) m) =
     (if cantidades_validas fs m then stock_derivado fs m else 0)"
  by (simp add: calcular_stock_conectado)

lemma stock_fs_ej: "0 \<le> fst (calcular_stock_medicamento (conectado fs_ej []) m)"
  by (cases "m = ''m1''")
     (simp_all add: stock_conectado_ej stock_derivado_def fs_ej_def mov_ej_def
        cantidad_entera_def)

lemma update_fs_ej:
  "actualizar_movimiento (conectado fs_ej []) ''b'' (data_ej 50 ''2024-03-02'') =
     ((200, Mensaje ''Movimiento actualizado''),
      conectado (fs_ej\<lparr>movimientos :=
        [(''a'', mov_ej ''INGRESO'' ''2024-03-01'' ''m1'' 10),
         (''b'', mov_ej ''SALIDA'' ''2024-03-02'' ''m1'' 50)]\<rparr>) [])"
proof -
  have "ident_in": "''b'' \<in> fst ` set (movimientos fs_ej)"
    by (simp add: fs_ej_def)
  show ?thesis
    using actualizar_movimiento_conectado [OF ident_in, of "data_ej 50 ''2024-03-02''" 50
        "''2024-03-02''" "[]"]
    by (simp add: data_ej_def fs_ej_def mov_ej_def aplicar_update_def dict_get_def)
qed

lemma stock_tras_update:
  "fst (calcular_stock_medicamento (conectado (fs_ej\<lparr>movimientos :=
        [(''a'', mov_ej ''INGRESO'' ''2024-03-01'' ''m1'' 10),
         (''b'', mov_ej ''SALIDA'' ''2024-03-02'' ''m1'' 50)]\<rparr>) []) ''m1'') = - 40"
  by (simp add: stock_conectado_ej stock_derivado_def cantidades_validas_def mov_ej_def
        cantidad_entera_def)

lemma delete_fs_ej:
  "eliminar_movimiento (conectado fs_ej []) ''a'' =
     ((200, Mensaje ''Movimiento eliminado''),
      conectado (fs_ej\<lparr>movimientos :=
        [(''b'', mov_ej ''SALIDA'' ''2024-03-02'' ''m1'' 4)]\<rparr>) [])"
  by (simp add: eliminar_movimiento_conectado) (simp add: fs_ej_def)

lemma stock_tras_delete:
  "fst (calcular_stock_medicamento (conectado (fs_ej\<lparr>movimientos :=
        [(''b'', mov_ej ''SALIDA'' ''2024-03-02'' ''m1'' 4)]\<rparr>) []) ''m1'') = - 4"
  by (simp add: stock_conectado_ej stock_derivado_def cantidades_validas_def mov_ej_def
        cantidad_entera_def)

text \<open>
  Claim C9. On a reachable store, an update of an existing movement that gives a quantity
  of at least 1 and a date is answered with 200 and written, whatever the stock becomes;
  the deletion of a movement is always answered with 200 and carried out. Neither handler
  computes a stock. There is a store in which every medication has a stock of at least 0
  and in which raising the quantity of a \<^verbatim>\<open>SALIDA\<close> succeeds and leaves a negative stock,
  and in which deleting an \<^verbatim>\<open>INGRESO\<close> succeeds and leaves a negative stock.
\<close>

theorem update_delete_skip_stock_check:
  "(ident \<in> fst ` set (movimientos fs) \<and> cantidad data = Valor q \<and> 1 \<le> q
      \<and> fecha data = Valor f \<and> f \<noteq> [] \<longrightarrow>
      actualizar_movimiento (conectado fs out) ident data =
        ((200, Mensaje ''Movimiento actualizado''),
         conectado (fs\<lparr>movimientos :=
           map (\<lambda>d. if fst d = ident
                      then (fst d, aplicar_update q f (dict_get (turno data)) (snd d)) else d)
               (movimientos fs)\<rparr>) out))
   \<and> eliminar_movimiento (conectado fs out) ident =
        ((200, Mensaje ''Movimiento eliminado''),
         conectado (fs\<lparr>movimientos :=
           filter (\<lambda>d. fst d \<noteq> ident) (movimientos fs)\<rparr>) out)
   \<and> (\<exists>fs0 i0 d0 fs1.
         (\<forall>m. 0 \<le> fst (calcular_stock_medicamento (conectado fs0 []) m))
         \<and> (\<exists>mov. (i0, mov) \<in> set (movimientos fs0) \<and> tipo mov = Valor ''SALIDA'')
         \<and> actualizar_movimiento (conectado fs0 []) i0 d0 =
             ((200, Mensaje ''Movimiento actualizado''), conectado fs1 [])
         \<and> (\<exists>m. fst (calcular_stock_medicamento (conectado fs1 []) m) < 0))
   \<and> (\<exists>fs0 i0 fs1.
         (\<forall>m. 0 \<le> fst (calcular_stock_medicamento (conectado fs0 []) m))
         \<and> (\<exists>mov. (i0, mov) \<in> set (movimientos fs0) \<and> tipo mov = Valor ''INGRESO'')
         \<and> eliminar_movimiento (conectado fs0 []) i0 =
             ((200, Mensaje ''Movimiento eliminado''), conectado fs1 [])
         \<and> (\<exists>m. fst (calcular_stock_medicamento (conectado fs1 []) m) < 0))"
proof -
  have upd: "\<exists>fs0 i0 d0 fs1.
         (\<forall>m. 0 \<le> fst (calcular_stock_medicamento (conectado fs0 []) m))
         \<and> (\<exists>mov. (i0, mov) \<in> set (movimientos fs0) \<and> tipo mov = Valor ''SALIDA'')
         \<and> actualizar_movimiento (conectado fs0 []) i0 d0 =
             ((200, Mensaje ''Movimiento actualizado''), conectado fs1 [])
         \<and> (\<exists>m. fst (calcular_stock_medicamento (conectado fs1 []) m) < 0)"
  proof (intro exI conjI)
    show "\<forall>m. 0 \<le> fst (calcular_stock_medicamento (conectado fs_ej []) m)"
      using stock_fs_ej by simp
    show "(''b'', mov_ej ''SALIDA'' ''2024-03-02'' ''m1'' 4) \<in> set (movimientos fs_ej)"
      by (simp add: fs_ej_def)
    show "tipo (mov_ej ''SALIDA'' ''2024-03-02'' ''m1'' 4) = Valor ''SALIDA''"
      by (simp add: mov_ej_def)
    show "actualizar_movimiento (conectado fs_ej []) ''b'' (data_ej 50 ''2024-03-02'') =
          ((200, Mensaje ''Movimiento actualizado''),
           conectado (fs_ej\<lparr>movimientos :=
             [(''a'', mov_ej ''INGRESO'' ''2024-03-01'' ''m1'' 10),
              (''b'', mov_ej ''SALIDA'' ''2024-03-02'' ''m1'' 50)]\<rparr>) [])"
      by (rule update_fs_ej)
    show "fst (calcular_stock_medicamento (conectado (fs_ej\<lparr>movimientos :=
             [(''a'', mov_ej ''INGRESO'' ''2024-03-01'' ''m1'' 10),
              (''b'', mov_ej ''SALIDA'' ''2024-03-02'' ''m1'' 50)]\<rparr>) []) ''m1'') < 0"
      by (simp add: stock_tras_update)
  qed
  have del: "\<exists>fs0 i0 fs1.
         (\<forall>m. 0 \<le> fst (calcular_stock_medicamento (conectado fs0 []) m))
         \<and> (\<exists>mov. (i0, mov) \<in> set (movimientos fs0) \<and> tipo mov = Valor ''INGRESO'')
         \<and> eliminar_movimiento (conectado fs0 []) i0 =
             ((200, Mensaje ''Movimiento eliminado''), conectado fs1 [])
         \<and> (\<exists>m. fst (calcular_stock_medicamento (conectado fs1 []) m) < 0)"
  proof (intro exI conjI)
    show "\<forall>m. 0 \<le> fst (calcular_stock_medicamento (conectado fs_ej []) m)"
      using stock_fs_ej by simp
    show "(''a'', mov_ej ''INGRESO'' ''2024-03-01'' ''m1'' 10) \<in> set (movimientos fs_ej)"
      by (simp add: fs_ej_def)
    show "tipo (mov_ej ''INGRESO'' ''2024-03-01'' ''m1'' 10) = Valor ''INGRESO''"
      by (simp add: mov_ej_def)
    show "eliminar_movimiento (conectado fs_ej []) ''a'' =
          ((200, Mensaje ''Movimiento eliminado''),
           conectado (fs_ej\<lparr>movimientos :=
             [(''b'', mov_ej ''SALIDA'' ''2024-03-02'' ''m1'' 4)]\<rparr>) [])"
      by (rule delete_fs_ej)
    show "fst (calcular_stock_medicamento (conectado (fs_ej\<lparr>movimientos :=
             [(''b'', mov_ej ''SALIDA'' ''2024-03-02'' ''m1'' 4)]\<rparr>) []) ''m1'') < 0"
      by (simp add: stock_tras_delete)
  qed
  have gen: "ident \<in> fst ` set (movimientos fs) \<and> cantidad data = Valor q \<and> 1 \<le> q
      \<and> fecha data = Valor f \<and> f \<noteq> [] \<longrightarrow>
      actualizar_movimiento (conectado fs out) ident data =
        ((200, Mensaje ''Movimiento actualizado''),
         conectado (fs\<lparr>movimientos :=
           map (\<lambda>d. if fst d = ident
                      then (fst d, aplicar_update q f (dict_get (turno data)) (snd d)) else d)
               (movimientos fs)\<rparr>) out)"
    using actualizar_movimiento_conectado [of ident fs data q f out] by blast
  show ?thesis
    using gen upd del eliminar_movimiento_conectado [of fs out ident] by blast
qed

theorem update_delete_skip_stock_check_witness:
  "actualizar_movimiento (conectado fs_ej []) ''b'' (data_ej 50 ''2024-03-02'') =
     ((200, Mensaje ''Movimiento actualizado''),
      conectado (fs_ej\<lparr>movimientos :=
        [(''a'', mov_ej ''INGRESO'' ''2024-03-01'' ''m1'' 10),
         (''b'', mov_ej ''SALIDA'' ''2024-03-02'' ''m1'' 50)]\<rparr>) [])
   \<and> eliminar_movimiento (conectado fs_ej []) ''a'' =
     ((200, Mensaje ''Movimiento eliminado''),
      conectado (fs_ej\<lparr>movimientos :=
        [(''b'', mov_ej ''SALIDA'' ''2024-03-02'' ''m1'' 4)]\<rparr>) [])"
proof -
  have h: "''b'' \<in> fst ` set (movimientos fs_ej)
      \<and> cantidad (data_ej 50 ''2024-03-02'') = Valor 50 \<and> (1::int) \<le> 50
      \<and> fecha (data_ej 50 ''2024-03-02'') = Valor ''2024-03-02'' \<and> ''2024-03-02'' \<noteq> []"
    by (simp add: fs_ej_def data_ej_def)
  have m: "map (\<lambda>d. if fst d = ''b''
                   then (fst d, aplicar_update 50 ''2024-03-02''
                          (dict_get (turno (data_ej 50 ''2024-03-02''))) (snd d)) else d)
            (movimientos fs_ej) =
           [(''a'', mov_ej ''INGRESO'' ''2024-03-01'' ''m1'' 10),
            (''b'', mov_ej ''SALIDA'' ''2024-03-02'' ''m1'' 50)]"
    by (simp add: data_ej_def fs_ej_def mov_ej_def aplicar_update_def dict_get_def)
  have f: "filter (\<lambda>d. fst d \<noteq> ''a'') (movimientos fs_ej) =
           [(''b'', mov_ej ''SALIDA'' ''2024-03-02'' ''m1'' 4)]"
    by (simp add: fs_ej_def)
  show ?thesis
    using h m f
      update_delete_skip_stock_check [of "''b''" fs_ej "data_ej 50 ''2024-03-02''" 50
        "''2024-03-02''" "[]"]
      update_delete_skip_stock_check [of "''a''" fs_ej "data_ej 50 ''2024-03-02''" 50
        "''2024-03-02''" "[]"]
    by simp
qed

section \<open>Status classification\<close>

lemma floorlog_pos_bounds:
  assumes "0 < (a::int)"
  shows "(2::rat) ^ (floorlog 2 (nat a) - 1) \<le> of_int a"
    and "of_int a < (2::rat) ^ floorlog 2 (nat a)"
    and "0 < floorlog 2 (nat a)"
proof -
  have pos: "0 < nat a" using assms by simp
  have b: "2 ^ (floorlog 2 (nat a) - 1) \<le> nat a \<and> nat a < 2 ^ floorlog 2 (nat a)"
    using floorlog_bounds [OF pos, of 2] by simp
  have "(2::int) ^ (floorlog 2 (nat a) - 1) \<le> a"
    using b assms by (metis int_nat_eq less_imp_le of_nat_le_iff of_nat_numeral of_nat_power)
  then have "rat_of_int (2 ^ (floorlog 2 (nat a) - 1)) \<le> of_int a"
    by (simp only: of_int_le_iff)
  then show "(2::rat) ^ (floorlog 2 (nat a) - 1) \<le> of_int a" by simp
  have "a < (2::int) ^ floorlog 2 (nat a)"
    using b assms by (metis nat_less_iff of_nat_numeral of_nat_power less_imp_le)
  then have "rat_of_int a < of_int (2 ^ floorlog 2 (nat a))"
    by (simp only: of_int_less_iff)
  then show "of_int a < (2::rat) ^ floorlog 2 (nat a)" by simp
  show "0 < floorlog 2 (nat a)"
    using pos by (simp add: floorlog_def)
qed

lemma exponente_bounds:
  assumes "0 < x"
  shows "2 powi (exponente x) \<le> x \<and> x < 2 powi (exponente x + 1)"
proof -
  obtain a b where q: "quotient_of x = (a, b)" by (cases "quotient_of x")
  have b: "0 < b" using quotient_of_denom_pos [OF q] .
  have x: "x = of_int a / of_int b" using quotient_of_div [OF q] .
  have a: "0 < a" using assms b x by (simp add: zero_less_divide_iff)
  define A where "A = floorlog 2 (nat a)"
  define B where "B = floorlog 2 (nat b)"
  have aA: "(2::rat) ^ (A - 1) \<le> of_int a" "of_int a < (2::rat) ^ A" "0 < A"
    using floorlog_pos_bounds [OF a] by (simp_all add: A_def)
  have bB: "(2::rat) ^ (B - 1) \<le> of_int b" "of_int b < (2::rat) ^ B" "0 < B"
    using floorlog_pos_bounds [OF b] by (simp_all add: B_def)
  have bpos: "(0::rat) < of_int b" using b by simp
  have up: "x < 2 powi (int A - int B + 1)"
  proof -
    have "of_int a * (2::rat) ^ (B - 1) < 2 ^ A * of_int b"
      using aA bB bpos a by (intro mult_less_le_imp_less) (auto simp: less_imp_le)
    then have "x < 2 ^ A / 2 ^ (B - 1)"
      using bpos by (simp add: x field_simps)
    also have "(2::rat) ^ A / 2 ^ (B - 1) = 2 powi (int A - int (B - 1))"
      by (simp add: power_int_diff)
    also have "int A - int (B - 1) = int A - int B + 1"
      using bB(3) by simp
    finally show ?thesis .
  qed
  have low: "2 powi (int A - int B - 1) < x"
  proof -
    have "(2::rat) ^ (A - 1) * of_int b < of_int a * 2 ^ B"
      using aA bB bpos a by (intro mult_le_less_imp_less) auto
    then have "(2::rat) ^ (A - 1) / 2 ^ B < x"
      using bpos by (simp add: x field_simps)
    moreover have "(2::rat) ^ (A - 1) / 2 ^ B = 2 powi (int (A - 1) - int B)"
      by (simp add: power_int_diff)
    moreover have "int (A - 1) - int B = int A - int B - 1"
      using aA(3) by simp
    ultimately show ?thesis by (simp only:)
  qed
  have e: "exponente x = (if 2 powi (int A - int B) \<le> x then int A - int B
                          else int A - int B - 1)"
    by (simp add: exponente_def q A_def B_def Let_def)
  show ?thesis
  proof (cases "2 powi (int A - int B) \<le> x")
    case True
    then show ?thesis using e up by simp
  next
    case False
    then show ?thesis using e low by (simp add: less_imp_le)
  qed
qed

lemma exponente_unique:
  assumes "0 < x" "2 powi e \<le> x" "x < 2 powi (e + 1)"
  shows "exponente x = e"
proof -
  let ?E = "exponente x"
  have b: "2 powi ?E \<le> x" "x < 2 powi (?E + 1)"
    using exponente_bounds [OF assms(1)] by simp_all
  have "(2::rat) powi e < 2 powi (?E + 1)" using assms(2) b(2) by simp
  then have 1: "e < ?E + 1"
    by (metis power_int_increasing not_less one_le_numeral leD)
  have "(2::rat) powi ?E < 2 powi (e + 1)" using assms(3) b(1) by simp
  then have 2: "?E < e + 1"
    by (metis power_int_increasing not_less one_le_numeral leD)
  show ?thesis using 1 2 by simp
qed

lemma round_half_even_of_int: "round_half_even (of_int n) = n"
  by (simp add: round_half_even_def)

lemma a_double_exact:
  assumes "\<bar>k\<bar> < 2 ^ 53"
  shows "a_double (of_int k * 2 powi j) = of_int k * 2 powi j"
proof (cases "k = 0")
  case True
  then show ?thesis by (simp add: a_double_def)
next
  case False
  define x :: rat where "x = of_int k * 2 powi j"
  have x0: "x \<noteq> 0" using False by (simp add: x_def)
  have ax: "\<bar>x\<bar> = of_int \<bar>k\<bar> * 2 powi j"
    by (simp add: x_def abs_mult)
  have pos: "0 < \<bar>x\<bar>" using x0 by simp
  define E where "E = exponente \<bar>x\<bar>"
  have low: "2 powi E \<le> \<bar>x\<bar>"
    using exponente_bounds [OF pos] by (simp add: E_def)
  have "rat_of_int \<bar>k\<bar> < of_int (2 ^ 53)"
    using assms by (simp only: of_int_less_iff)
  then have "rat_of_int \<bar>k\<bar> < 2 powi 53" by simp
  then have "\<bar>x\<bar> < 2 powi 53 * 2 powi j"
    unfolding ax by (intro mult_strict_right_mono) simp_all
  also have "(2::rat) powi 53 * 2 powi j = 2 powi (53 + j)"
    by (simp add: power_int_add)
  finally have "(2::rat) powi E < 2 powi (53 + j)"
    using low by simp
  then have "E < 53 + j"
    by (metis power_int_increasing not_less one_le_numeral leD)
  then have d: "0 \<le> j - (E - 52)" by simp
  have split: "(2::rat) powi j = 2 powi (j - (E - 52)) * 2 powi (E - 52)"
    by (simp flip: power_int_add)
  have quo: "x / 2 powi (E - 52) = of_int (k * 2 ^ nat (j - (E - 52)))"
  proof -
    have "x / 2 powi (E - 52) = of_int k * (2::rat) powi (j - (E - 52))"
      unfolding x_def by (subst split) simp
    also have "(2::rat) powi (j - (E - 52)) = 2 ^ nat (j - (E - 52))"
      using d by (simp add: power_int_def)
    finally show ?thesis by simp
  qed
  have "a_double x = of_int (round_half_even (x / 2 powi (E - 52))) * 2 powi (E - 52)"
    using x0 by (simp add: a_double_def E_def Let_def)
  also have "\<dots> = of_int (k * 2 ^ nat (j - (E - 52))) * 2 powi (E - 52)"
    by (simp only: quo round_half_even_of_int)
  also have "\<dots> = x / 2 powi (E - 52) * 2 powi (E - 52)"
    by (simp only: quo)
  also have "\<dots> = x" by simp
  finally show ?thesis by (simp add: x_def)
qed

lemma a_double_int: "\<bar>k\<bar> < 2 ^ 53 \<Longrightarrow> a_double (of_int k) = of_int k"
  using a_double_exact [of k 0] by simp

lemma a_double_halves: "\<bar>k\<bar> < 2 ^ 53 \<Longrightarrow> a_double (of_int k / 2) = of_int k / 2"
  using a_double_exact [of k "-1"] by (simp add: field_simps)

lemma umbral_bajo:
  assumes "1 \<le> m" "3 * m < 2 ^ 53"
  shows "a_double (a_double (of_int m) * (3 / 2)) = of_int (3 * m) / 2"
proof -
  have "\<bar>m\<bar> < 2 ^ 53" using assms by simp
  then have am: "a_double (of_int m) = of_int m" by (rule a_double_int)
  have eq: "rat_of_int m * (3 / 2) = of_int (3 * m) / 2" by simp
  have "\<bar>3 * m\<bar> < 2 ^ 53" using assms by simp
  then have "a_double (of_int (3 * m) / 2) = of_int (3 * m) / 2"
    by (rule a_double_halves)
  then show ?thesis by (simp only: am eq)
qed

lemma clasificar_exacto:
  assumes "1 \<le> m" "3 * m < 2 ^ 53"
  shows "clasificar_estado s m =
     (if s \<le> 0 then AGOTADO else if s \<le> m then CRITICO
      else if 2 * s \<le> 3 * m then BAJO else OK)"
proof -
  have "rat_of_int s \<le> of_int (3 * m) / 2 \<longleftrightarrow> 2 * s \<le> 3 * m"
  proof -
    have "rat_of_int s \<le> of_int (3 * m) / 2 \<longleftrightarrow> rat_of_int (2 * s) \<le> of_int (3 * m)"
      by (simp add: field_simps)
    also have "\<dots> \<longleftrightarrow> 2 * s \<le> 3 * m" by (simp only: of_int_le_iff)
    finally show ?thesis .
  qed
  then show ?thesis
    unfolding clasificar_estado_def umbral_bajo [OF assms] by simp
qed

text \<open>
  Claim C3, as the code has it. For a minimum \<open>m\<close> with \<open>1 \<le> m\<close> and \<open>3 m < 2 ^ 53\<close>
  (so that the double product \<open>m * 1.5\<close> is exact) and every integer stock \<open>s\<close>: the
  status is \<^verbatim>\<open>AGOTADO\<close> exactly when \<open>s \<le> 0\<close>, \<^verbatim>\<open>CRITICO\<close> exactly when \<open>0 < s \<le> m\<close>,
  \<^verbatim>\<open>BAJO\<close> exactly when \<open>m < s \<le> 1.5 m\<close> (written \<open>2 s \<le> 3 m\<close>) and \<^verbatim>\<open>OK\<close> exactly when
  \<open>s > 1.5 m\<close>. In particular \<open>s = m\<close> gives \<^verbatim>\<open>CRITICO\<close> and \<open>s = 1.5 m\<close> gives \<^verbatim>\<open>BAJO\<close>.
\<close>

theorem status_bands:
  assumes "1 \<le> m" and "3 * m < 2 ^ 53"
  shows "(clasificar_estado s m = AGOTADO \<longleftrightarrow> s \<le> 0)
       \<and> (clasificar_estado s m = CRITICO \<longleftrightarrow> 0 < s \<and> s \<le> m)
       \<and> (clasificar_estado s m = BAJO \<longleftrightarrow> m < s \<and> 2 * s \<le> 3 * m)
       \<and> (clasificar_estado s m = OK \<longleftrightarrow> 3 * m < 2 * s)
       \<and> clasificar_estado m m = CRITICO
       \<and> (2 * s = 3 * m \<longrightarrow> clasificar_estado s m = BAJO)"
  using assms by (auto simp: clasificar_exacto)

theorem status_bands_witness:
  "clasificar_estado 0 10 = AGOTADO \<and> clasificar_estado 10 10 = CRITICO
   \<and> clasificar_estado 11 10 = BAJO \<and> clasificar_estado 15 10 = BAJO
   \<and> clasificar_estado 16 10 = OK"
proof -
  have h: "(1::int) \<le> 10" "3 * (10::int) < 2 ^ 53" by simp_all
  show ?thesis
    using status_bands [OF h, of 0] status_bands [OF h, of 10] status_bands [OF h, of 11]
      status_bands [OF h, of 15] status_bands [OF h, of 16]
    by simp
qed

lemma a_double_con_exponente:
  assumes "x \<noteq> 0" "2 powi e \<le> \<bar>x\<bar>" "\<bar>x\<bar> < 2 powi (e + 1)"
  shows "a_double x = of_int (round_half_even (x / 2 powi (e - 52))) * 2 powi (e - 52)"
proof -
  have "exponente \<bar>x\<bar> = e"
    using assms by (intro exponente_unique) simp_all
  then show ?thesis using assms(1) by (simp add: a_double_def Let_def)
qed

lemma producto_grande:
  "a_double (13510798882111479 / 2) = 6755399441055740"
proof -
  have f: "\<lfloor>(13510798882111479::rat) / 2\<rfloor> = 6755399441055739"
    by (rule floor_unique) simp_all
  have r: "round_half_even (13510798882111479 / 2) = 6755399441055740"
    by (simp add: round_half_even_def Let_def f)
  have "a_double (13510798882111479 / 2) =
          of_int (round_half_even (13510798882111479 / 2 / 2 powi (52 - 52))) * 2 powi (52 - 52)"
    by (rule a_double_con_exponente) simp_all
  then show ?thesis by (simp add: r)
qed

text \<open>
  Claim C3 as stated ranges over every minimum \<open>m \<ge> 1\<close>. For \<open>m = 2 ^ 52 - 3\<close> the product
  \<open>m * 1.5\<close> is halfway between two doubles and rounds up to the even one, so the stock
  \<open>s = 6755399441055740\<close>, which is above \<open>1.5 m\<close>, is still classified \<^verbatim>\<open>BAJO\<close>.
\<close>

theorem status_large_minimum:
  "clasificar_estado 6755399441055740 4503599627370493 = BAJO
   \<and> 3 * (4503599627370493::int) < 2 * 6755399441055740"
proof -
  have "a_double (rat_of_int 4503599627370493) = of_int 4503599627370493"
    by (rule a_double_int) simp
  then have "a_double (a_double (rat_of_int 4503599627370493) * (3 / 2)) = 6755399441055740"
    using producto_grande by simp
  then show ?thesis
    by (simp add: clasificar_estado_def)
qed

end
